theory Spec2Isabelle
  imports Complex_Main
begin

section \<open>Data model (the module \<open>@/types/stripe\<close>)\<close>

text \<open>
  The records of the local JSON stores. JavaScript numbers that hold years, months and
  timestamps are modelled as integers, strings as \<open>string\<close>. The optional flag
  \<open>isDefault?: boolean\<close> is a \<open>bool option\<close>. The constant field \<open>type: 'card'\<close>
  of a saved payment method carries no information and is left out. The field \<open>id\<close> is
  named \<open>pm_id\<close> and \<open>cus_id\<close>, since \<open>id\<close> is the identity function of HOL; the
  other fields of a customer carry the prefix \<open>cus_\<close> as well.
\<close>

record card_info =
  brand :: string
  last4 :: string
  exp_month :: int
  exp_year :: int

record SavedPaymentMethod =
  pm_id :: string
  customerId :: string
  card :: card_info
  created :: int
  isDefault :: "bool option"

record CustomerData =
  cus_id :: string
  cus_email :: string
  cus_name :: string
  cus_created :: int
  cus_paymentMethods :: "SavedPaymentMethod list"

section \<open>The local stores (the module \<open>@/lib/data\<close>)\<close>

text \<open>
  Each store is a JSON file holding an array; every operation reads the whole array,
  changes it and writes it back. The content of the file is the state, a list in file
  order. Reading and writing the file are assumed to succeed.
\<close>

text \<open>\<open>Array.prototype.findIndex\<close>: the index of the first match, or \<open>-1\<close>.\<close>

fun findIndex :: "('a \<Rightarrow> bool) \<Rightarrow> 'a list \<Rightarrow> int" where
  "findIndex P [] = - 1"
| "findIndex P (x # xs) =
     (if P x then 0 else (let i = findIndex P xs in if i < 0 then - 1 else i + 1))"

subsection \<open>CustomerDataStore\<close>

definition CustomerDataStore_getById :: "string \<Rightarrow> CustomerData list \<Rightarrow> CustomerData option" where
  "CustomerDataStore_getById i customers = find (\<lambda>customer. cus_id customer = i) customers"

definition CustomerDataStore_getByEmail :: "string \<Rightarrow> CustomerData list \<Rightarrow> CustomerData option" where
  "CustomerDataStore_getByEmail e customers = find (\<lambda>customer. cus_email customer = e) customers"

definition CustomerDataStore_save :: "CustomerData \<Rightarrow> CustomerData list \<Rightarrow> CustomerData list" where
  "CustomerDataStore_save customer customers =
     (let existingIndex = findIndex (\<lambda>c. cus_id c = cus_id customer) customers
      in if existingIndex \<ge> 0 then customers[nat existingIndex := customer]
         else customers @ [customer])"

text \<open>\<open>delete\<close> returns its boolean result together with the new content of the file.\<close>

definition CustomerDataStore_delete :: "string \<Rightarrow> CustomerData list \<Rightarrow> bool \<times> CustomerData list" where
  "CustomerDataStore_delete i customers =
     (let filteredCustomers = filter (\<lambda>c. cus_id c \<noteq> i) customers
      in if length filteredCustomers < length customers then (True, filteredCustomers)
         else (False, customers))"

subsection \<open>PaymentMethodDataStore\<close>

definition PaymentMethodDataStore_getByCustomerId ::
  "string \<Rightarrow> SavedPaymentMethod list \<Rightarrow> SavedPaymentMethod list" where
  "PaymentMethodDataStore_getByCustomerId c paymentMethods =
     filter (\<lambda>pm. customerId pm = c) paymentMethods"

definition PaymentMethodDataStore_getById ::
  "string \<Rightarrow> SavedPaymentMethod list \<Rightarrow> SavedPaymentMethod option" where
  "PaymentMethodDataStore_getById i paymentMethods = find (\<lambda>pm. pm_id pm = i) paymentMethods"

definition PaymentMethodDataStore_save ::
  "SavedPaymentMethod \<Rightarrow> SavedPaymentMethod list \<Rightarrow> SavedPaymentMethod list" where
  "PaymentMethodDataStore_save paymentMethod paymentMethods =
     (let existingIndex = findIndex (\<lambda>pm. pm_id pm = pm_id paymentMethod) paymentMethods
      in if existingIndex \<ge> 0 then paymentMethods[nat existingIndex := paymentMethod]
         else paymentMethods @ [paymentMethod])"

definition PaymentMethodDataStore_delete ::
  "string \<Rightarrow> SavedPaymentMethod list \<Rightarrow> bool \<times> SavedPaymentMethod list" where
  "PaymentMethodDataStore_delete i paymentMethods =
     (let filteredPaymentMethods = filter (\<lambda>pm. pm_id pm \<noteq> i) paymentMethods
      in if length filteredPaymentMethods < length paymentMethods
         then (True, filteredPaymentMethods)
         else (False, paymentMethods))"

text \<open>
  \<open>setAsDefault\<close> first clears the flag of every record of the customer (the
  \<open>forEach\<close>), then \<open>find\<close> returns a reference to the first record with the given
  id and the flag of that object is set; the update through the reference is an update
  of the array at the index of the first match.
\<close>

definition PaymentMethodDataStore_setAsDefault ::
  "string \<Rightarrow> string \<Rightarrow> SavedPaymentMethod list \<Rightarrow> SavedPaymentMethod list" where
  "PaymentMethodDataStore_setAsDefault paymentMethodId c paymentMethods =
     (let cleared = map (\<lambda>pm. if customerId pm = c then pm\<lparr>isDefault := Some False\<rparr> else pm)
                        paymentMethods;
          targetIndex = findIndex (\<lambda>pm. pm_id pm = paymentMethodId) cleared
      in if targetIndex \<ge> 0
         then cleared[nat targetIndex := (cleared ! nat targetIndex)\<lparr>isDefault := Some True\<rparr>]
         else cleared)"

section \<open>JavaScript values\<close>

text \<open>
  A string is falsy exactly when it is empty; \<open>null\<close> and \<open>undefined\<close> are \<open>None\<close>.
\<close>

definition truthy :: "string option \<Rightarrow> bool" where
  "truthy v = (case v of None \<Rightarrow> False | Some s \<Rightarrow> s \<noteq> [])"

text \<open>\<open>present v\<close> is the value of \<open>v\<close> when \<open>v\<close> is truthy.\<close>

definition present :: "string option \<Rightarrow> string option" where
  "present v = (if truthy v then v else None)"

text \<open>\<open>x || d\<close> on strings and on numbers.\<close>

definition or_str :: "string \<Rightarrow> string \<Rightarrow> string" where
  "or_str x d = (if x = [] then d else x)"

definition or_num :: "int \<Rightarrow> int \<Rightarrow> int" where
  "or_num x d = (if x = 0 then d else x)"

text \<open>\<open>String.prototype.includes\<close>, named \<open>str_includes\<close> (\<open>includes\<close> is a keyword).\<close>

fun startsWith :: "string \<Rightarrow> string \<Rightarrow> bool" where
  "startsWith s [] = True"
| "startsWith [] (c # cs) = False"
| "startsWith (x # xs) (c # cs) = (x = c \<and> startsWith xs cs)"

fun str_includes :: "string \<Rightarrow> string \<Rightarrow> bool" where
  "str_includes [] sub = (sub = [])"
| "str_includes (x # xs) sub = (startsWith (x # xs) sub \<or> str_includes xs sub)"

text \<open>
  A thrown value is an \<open>Error\<close> with its message, or something that is not an
  \<open>Error\<close>. Every handler reads the message with
  \<open>error instanceof Error ? error.message : d\<close>.
\<close>

datatype thrown = JsError string | NotAnError

definition message_or :: "string \<Rightarrow> thrown \<Rightarrow> string" where
  "message_or d e = (case e of JsError m \<Rightarrow> m | NotAnError \<Rightarrow> d)"

section \<open>The payment provider (the Stripe SDK)\<close>

text \<open>
  The objects of the provider, with the fields the handlers read. A reference to a
  customer or a payment method is either an id or an expanded object in the SDK; the
  handlers reduce both to the id, which is what the model keeps.
\<close>

record stripe_customer =
  sc_id :: string
  sc_email :: "string option"
  sc_name :: "string option"
  sc_created :: int
  sc_deleted :: bool

record stripe_payment_method =
  spm_id :: string
  spm_customer :: "string option"
  spm_card :: "card_info option"
  spm_created :: int

record stripe_payment_intent =
  pi_id :: string
  pi_status :: string
  pi_client_secret :: "string option"
  pi_setup_future_usage :: "string option"
  pi_payment_method :: "string option"
  pi_customer :: "string option"

record stripe_setup_intent =
  si_id :: string
  si_client_secret :: "string option"
  si_payment_method :: "string option"
  si_customer :: "string option"

text \<open>The parameters of \<open>stripe.paymentIntents.create\<close> that the handler builds.\<close>

record PaymentIntentCreateParams =
  p_amount :: int
  p_currency :: string
  p_metadata_save_card :: string
  p_metadata_off_session :: string
  p_customer :: "string option"
  p_payment_method :: "string option"
  p_confirm :: bool
  p_off_session :: bool
  p_setup_future_usage :: "string option"

text \<open>
  A webhook event: its id and, by type, the object it carries. Types the handler has no
  case for are \<open>OtherEvent\<close> with the type string.
\<close>

datatype event_payload =
    SetupIntentSucceeded stripe_setup_intent
  | PaymentIntentSucceeded stripe_payment_intent
  | PaymentIntentPaymentFailed stripe_payment_intent
  | PaymentMethodAttached stripe_payment_method
  | CustomerCreated stripe_customer
  | CustomerDeleted stripe_customer
  | OtherEvent string

record stripe_event =
  ev_id :: string
  ev_payload :: event_payload

text \<open>
  The provider is outside the program: what it answers to each call is a parameter of
  the model, a record of functions that return the result or the value thrown. The last
  three fields are the rest of the environment of the server: the webhook secret
  (\<open>process.env.STRIPE_WEBHOOK_SECRET\<close>), the year of \<open>new Date().getFullYear()\<close>,
  and \<open>round_cents\<close>, the value of \<open>Math.round(amount * 100)\<close> as the runtime
  computes it in double precision, which is not the rounding of the exact product
  (1.005 is sent as 100 cents).
\<close>

record stripe =
  customers_retrieve :: "string \<Rightarrow> thrown + stripe_customer"
  customers_create :: "string \<Rightarrow> string \<Rightarrow> thrown + stripe_customer"
  customers_update :: "string \<Rightarrow> string \<Rightarrow> thrown + unit"
  customers_del :: "string \<Rightarrow> thrown + unit"
  customers_list :: "string option \<Rightarrow> thrown + (stripe_customer list \<times> bool)"
  paymentMethods_retrieve :: "string \<Rightarrow> thrown + stripe_payment_method"
  paymentMethods_attach :: "string \<Rightarrow> string \<Rightarrow> thrown + stripe_payment_method"
  paymentMethods_detach :: "string \<Rightarrow> thrown + unit"
  paymentMethods_list :: "string \<Rightarrow> thrown + stripe_payment_method list"
  paymentIntents_create :: "PaymentIntentCreateParams \<Rightarrow> thrown + stripe_payment_intent"
  paymentIntents_retrieve :: "string \<Rightarrow> thrown + stripe_payment_intent"
  paymentIntents_confirm :: "string \<Rightarrow> thrown + stripe_payment_intent"
  paymentIntents_cancel :: "string \<Rightarrow> thrown + stripe_payment_intent"
  setupIntents_create :: "string \<Rightarrow> string \<Rightarrow> thrown + stripe_setup_intent"
  setupIntents_retrieve :: "string \<Rightarrow> thrown + stripe_setup_intent"
  webhooks_constructEvent :: "string \<Rightarrow> string \<Rightarrow> string \<Rightarrow> thrown + stripe_event"
  STRIPE_WEBHOOK_SECRET :: string
  currentYear :: int
  round_cents :: "rat \<Rightarrow> int"

text \<open>The calls a handler makes to the provider, in order.\<close>

datatype stripe_call =
    CustomersRetrieve string
  | CustomersCreate string string
  | PaymentMethodsRetrieve string
  | PaymentIntentsCreate PaymentIntentCreateParams
  | PaymentIntentsConfirm string
  | PaymentIntentsCancel string

section \<open>The Local State Mirror\<close>

text \<open>The two JSON files, named as the constants of the store module name them.\<close>

record mirror =
  CUSTOMERS_FILE :: "CustomerData list"
  PAYMENT_METHODS_FILE :: "SavedPaymentMethod list"

section \<open>The webhook endpoint\<close>

text \<open>
  The object literal \<open>savedPaymentMethod\<close>, which the three webhook handlers and the
  attach route build in the same way from the provider's payment method, the customer id
  and the default flag.
\<close>

definition savedPaymentMethod_of ::
  "int \<Rightarrow> stripe_payment_method \<Rightarrow> string \<Rightarrow> bool \<Rightarrow> SavedPaymentMethod" where
  "savedPaymentMethod_of yr paymentMethod cid dflt =
     \<lparr>pm_id = spm_id paymentMethod,
      customerId = cid,
      card = \<lparr>brand = (case spm_card paymentMethod of None \<Rightarrow> ''unknown''
                         | Some c \<Rightarrow> or_str (brand c) ''unknown''),
              last4 = (case spm_card paymentMethod of None \<Rightarrow> ''0000''
                         | Some c \<Rightarrow> or_str (last4 c) ''0000''),
              exp_month = (case spm_card paymentMethod of None \<Rightarrow> 1
                         | Some c \<Rightarrow> or_num (exp_month c) 1),
              exp_year = (case spm_card paymentMethod of None \<Rightarrow> yr
                         | Some c \<Rightarrow> or_num (exp_year c) yr)\<rparr>,
      created = spm_created paymentMethod * 1000,
      isDefault = Some dflt\<rparr>"

text \<open>
  The save shared by \<open>handleSetupIntentSucceeded\<close> and \<open>handlePaymentIntentSucceeded\<close>:
  the payment method is fetched from the provider and saved; an error of the fetch is
  caught and logged, and nothing is written.
\<close>

definition fetch_and_save ::
  "stripe \<Rightarrow> string \<Rightarrow> string \<Rightarrow> SavedPaymentMethod list \<Rightarrow> SavedPaymentMethod list" where
  "fetch_and_save st paymentMethodId cid pms =
     (case paymentMethods_retrieve st paymentMethodId of
        Inl e \<Rightarrow> pms
      | Inr paymentMethod \<Rightarrow>
          PaymentMethodDataStore_save
            (savedPaymentMethod_of (currentYear st) paymentMethod cid False) pms)"

definition handleSetupIntentSucceeded :: "stripe \<Rightarrow> stripe_setup_intent \<Rightarrow> mirror \<Rightarrow> mirror" where
  "handleSetupIntentSucceeded st setupIntent m =
     (case (present (si_payment_method setupIntent), present (si_customer setupIntent)) of
        (Some paymentMethodId, Some cid) \<Rightarrow>
          m\<lparr>PAYMENT_METHODS_FILE := fetch_and_save st paymentMethodId cid (PAYMENT_METHODS_FILE m)\<rparr>
      | _ \<Rightarrow> m)"

definition handlePaymentIntentSucceeded :: "stripe \<Rightarrow> stripe_payment_intent \<Rightarrow> mirror \<Rightarrow> mirror" where
  "handlePaymentIntentSucceeded st paymentIntent m =
     (if truthy (pi_setup_future_usage paymentIntent) then
        (case (present (pi_payment_method paymentIntent), present (pi_customer paymentIntent)) of
           (Some paymentMethodId, Some cid) \<Rightarrow>
             m\<lparr>PAYMENT_METHODS_FILE := fetch_and_save st paymentMethodId cid (PAYMENT_METHODS_FILE m)\<rparr>
         | _ \<Rightarrow> m)
      else m)"

text \<open>\<open>handlePaymentIntentFailed\<close> only logs.\<close>

definition handlePaymentIntentFailed :: "stripe_payment_intent \<Rightarrow> mirror \<Rightarrow> mirror" where
  "handlePaymentIntentFailed paymentIntent m = m"

definition handlePaymentMethodAttached :: "stripe \<Rightarrow> stripe_payment_method \<Rightarrow> mirror \<Rightarrow> mirror" where
  "handlePaymentMethodAttached st paymentMethod m =
     (case present (spm_customer paymentMethod) of
        Some cid \<Rightarrow>
          m\<lparr>PAYMENT_METHODS_FILE :=
              PaymentMethodDataStore_save
                (savedPaymentMethod_of (currentYear st) paymentMethod cid False)
                (PAYMENT_METHODS_FILE m)\<rparr>
      | None \<Rightarrow> m)"

definition handleCustomerCreated :: "stripe_customer \<Rightarrow> mirror \<Rightarrow> mirror" where
  "handleCustomerCreated customer m =
     m\<lparr>CUSTOMERS_FILE :=
         CustomerDataStore_save
           \<lparr>cus_id = sc_id customer,
            cus_email = (case sc_email customer of None \<Rightarrow> [] | Some e \<Rightarrow> e),
            cus_name = (case sc_name customer of None \<Rightarrow> [] | Some n \<Rightarrow> n),
            cus_created = sc_created customer * 1000,
            cus_paymentMethods = []\<rparr>
           (CUSTOMERS_FILE m)\<rparr>"

text \<open>
  \<open>handleCustomerDeleted\<close>: the customer is deleted, then the payment methods of the
  customer are read once, and for each of them \<open>delete\<close> is called with its id (every
  call reads and writes the file).
\<close>

definition handleCustomerDeleted :: "stripe_customer \<Rightarrow> mirror \<Rightarrow> mirror" where
  "handleCustomerDeleted customer m =
     (let customers' = snd (CustomerDataStore_delete (sc_id customer) (CUSTOMERS_FILE m));
          customerPaymentMethods =
            PaymentMethodDataStore_getByCustomerId (sc_id customer) (PAYMENT_METHODS_FILE m)
      in \<lparr>CUSTOMERS_FILE = customers',
          PAYMENT_METHODS_FILE =
            fold (\<lambda>pm pms. snd (PaymentMethodDataStore_delete (pm_id pm) pms))
                 customerPaymentMethods (PAYMENT_METHODS_FILE m)\<rparr>)"

text \<open>The response of the webhook endpoint: the status and the JSON body.\<close>

record webhook_response =
  wh_status :: nat
  wh_error :: "string option"
  wh_received :: bool

text \<open>
  \<open>POST\<close> of the webhook route, on the raw body and the \<open>stripe-signature\<close> header.
  With the stores reliable none of the handlers throws, so the branch that answers 500 is
  never taken and is not part of the model.
\<close>

definition webhook_POST ::
  "stripe \<Rightarrow> string \<Rightarrow> string option \<Rightarrow> mirror \<Rightarrow> webhook_response \<times> mirror" where
  "webhook_POST st body signature_header m =
     (case present signature_header of
        None \<Rightarrow>
          (\<lparr>wh_status = 400, wh_error = Some ''Missing signature'', wh_received = False\<rparr>, m)
      | Some signature \<Rightarrow>
          (case webhooks_constructEvent st body signature (STRIPE_WEBHOOK_SECRET st) of
             Inl e \<Rightarrow>
               (\<lparr>wh_status = 400, wh_error = Some ''Invalid signature'', wh_received = False\<rparr>, m)
           | Inr event \<Rightarrow>
               (\<lparr>wh_status = 200, wh_error = None, wh_received = True\<rparr>,
                (case ev_payload event of
                   SetupIntentSucceeded setupIntent \<Rightarrow> handleSetupIntentSucceeded st setupIntent m
                 | PaymentIntentSucceeded paymentIntent \<Rightarrow>
                     handlePaymentIntentSucceeded st paymentIntent m
                 | PaymentIntentPaymentFailed paymentIntent \<Rightarrow>
                     handlePaymentIntentFailed paymentIntent m
                 | PaymentMethodAttached paymentMethod \<Rightarrow>
                     handlePaymentMethodAttached st paymentMethod m
                 | CustomerCreated customer \<Rightarrow> handleCustomerCreated customer m
                 | CustomerDeleted customer \<Rightarrow> handleCustomerDeleted customer m
                 | OtherEvent t \<Rightarrow> m))))"

section \<open>The client-facing API\<close>

text \<open>
  The envelope \<open>ApiResponse\<close> with the HTTP status of \<open>NextResponse.json\<close> (200
  when the handler gives none). The payloads of the routes are the constructors of
  \<open>api_data\<close>. A handler is a function of the parsed body or of the parameters of
  the URL; a body that is not JSON makes \<open>request.json()\<close> throw before the handler
  reads anything, and the outer \<open>catch\<close> answers with status 500 and the message of
  the parser.
\<close>

record PaymentIntentResponse =
  pir_clientSecret :: "string option"
  pir_paymentIntentId :: string
  pir_status :: string
  pir_requiresAction :: "bool option"

datatype api_data =
    PaymentMethodDetail stripe_payment_method "SavedPaymentMethod option"
  | PaymentMethodsOfCustomer "stripe_payment_method list" "SavedPaymentMethod list"
  | LocalPaymentMethods "SavedPaymentMethod list"
  | AttachedPaymentMethod stripe_payment_method SavedPaymentMethod
  | Message string
  | Deleted bool
  | CustomerDetail stripe_customer "CustomerData option"
  | CustomerLists "CustomerData list" "stripe_customer list" nat
  | ExistingCustomer CustomerData
  | CreatedCustomer stripe_customer CustomerData
  | IntentResponse PaymentIntentResponse
  | PaymentIntentObject stripe_payment_intent
  | SetupIntentResponse string string
  | SetupIntentObject stripe_setup_intent

record ApiResponse =
  status :: nat
  success :: bool
  data :: "api_data option"
  error :: "string option"

definition ok :: "api_data \<Rightarrow> ApiResponse" where
  "ok d = \<lparr>status = 200, success = True, data = Some d, error = None\<rparr>"

definition fail :: "nat \<Rightarrow> string \<Rightarrow> ApiResponse" where
  "fail code msg = \<lparr>status = code, success = False, data = None, error = Some msg\<rparr>"

subsection \<open>app/api/customers/route.ts\<close>



record CreateCustomerRequest =
  r_email :: "string option"
  r_name :: "string option"

text \<open>
  \<open>POST\<close>: the result is the response, the calls made to the provider and the mirror
  after the request. The provider echoes the email and the name it was given; should it
  answer \<open>null\<close> for one of them, the model stores the empty string. The metadata of
  the request is passed to the provider only and is left out.
\<close>

definition customers_POST ::
  "stripe \<Rightarrow> CreateCustomerRequest \<Rightarrow> mirror \<Rightarrow> ApiResponse \<times> stripe_call list \<times> mirror" where
  "customers_POST st body m =
     (case (present (r_email body), present (r_name body)) of
        (Some e, Some n) \<Rightarrow>
          (case CustomerDataStore_getByEmail e (CUSTOMERS_FILE m) of
             Some existingCustomer \<Rightarrow> (ok (ExistingCustomer existingCustomer), [], m)
           | None \<Rightarrow>
               (case customers_create st e n of
                  Inl err \<Rightarrow>
                    (fail 500 (message_or ''Failed to create customer'' err),
                     [CustomersCreate e n], m)
                | Inr stripeCustomer \<Rightarrow>
                    (let customerData =
                           \<lparr>cus_id = sc_id stripeCustomer,
                            cus_email = (case sc_email stripeCustomer of None \<Rightarrow> [] | Some x \<Rightarrow> x),
                            cus_name = (case sc_name stripeCustomer of None \<Rightarrow> [] | Some x \<Rightarrow> x),
                            cus_created = sc_created stripeCustomer * 1000,
                            cus_paymentMethods = []\<rparr>
                     in (ok (CreatedCustomer stripeCustomer customerData),
                         [CustomersCreate e n],
                         m\<lparr>CUSTOMERS_FILE := CustomerDataStore_save customerData (CUSTOMERS_FILE m)\<rparr>))))
      | _ \<Rightarrow> (fail 400 ''Email and name are required'', [], m))"


subsection \<open>app/api/payment-methods/route.ts\<close>




record UpdateRequest =
  u_paymentMethodId :: "string option"
  u_customerId :: "string option"
  u_action :: "string option"

definition payment_methods_PATCH ::
  "stripe \<Rightarrow> UpdateRequest \<Rightarrow> mirror \<Rightarrow> ApiResponse \<times> mirror" where
  \<open>payment_methods_PATCH st body m =
     (case (present (u_paymentMethodId body), present (u_customerId body)) of
        (Some paymentMethodId, Some cid) \<Rightarrow>
          (if u_action body = Some ''set_default'' then
             (case customers_update st cid paymentMethodId of
                Inl e \<Rightarrow> (fail 500 (message_or ''Failed to update payment method'' e), m)
              | Inr u \<Rightarrow>
                  (ok (Message ''Payment method set as default''),
                   m\<lparr>PAYMENT_METHODS_FILE :=
                       PaymentMethodDataStore_setAsDefault paymentMethodId cid
                         (PAYMENT_METHODS_FILE m)\<rparr>))
           else (fail 400 ''Invalid action. Use "set_default"'', m))
      | _ \<Rightarrow> (fail 400 ''Payment method ID and customer ID are required'', m))\<close>


subsection \<open>The payment-intent route (\<open>/api/payment-intent\<close>)\<close>

text \<open>
  The amount of a request is a JSON number, modelled by its exact value; a missing
  amount (or \<open>null\<close>) is \<open>None\<close>. The conversion to cents, \<open>Math.round(amount * 100)\<close>,
  is the function \<open>round_cents\<close> of the environment.
\<close>

record PaymentIntentRequest =
  r_customerId :: "string option"
  r_amount :: "rat option"
  r_currency :: "string option"
  r_paymentMethodId :: "string option"
  r_saveCard :: "bool option"
  r_offSession :: "bool option"

text \<open>The block \<open>if (body.customerId) {...}\<close>: \<open>Inl\<close> is the early return.\<close>

definition verify_customer ::
  "stripe \<Rightarrow> PaymentIntentRequest \<Rightarrow> (ApiResponse + unit) \<times> stripe_call list" where
  "verify_customer st body =
     (case present (r_customerId body) of
        None \<Rightarrow> (Inr (), [])
      | Some cid \<Rightarrow>
          (case customers_retrieve st cid of
             Inr customer \<Rightarrow>
               (if sc_deleted customer
                then (Inl (fail 404 (''Customer '' @ cid @
                         '' has been deleted. Please select a different customer.'')),
                      [CustomersRetrieve cid])
                else (Inr (), [CustomersRetrieve cid]))
           | Inl e \<Rightarrow>
               (let errorMessage = message_or ''Customer not found'' e
                in (Inl (fail 404
                          (if str_includes errorMessage ''No such customer''
                           then ''Customer '' @ cid @
                                '' not found in your Stripe account. Please select a valid customer.''
                           else errorMessage)),
                    [CustomersRetrieve cid]))))"

text \<open>The block \<open>if (body.paymentMethodId) {...}\<close>.\<close>

definition verify_payment_method ::
  "stripe \<Rightarrow> PaymentIntentRequest \<Rightarrow> (ApiResponse + unit) \<times> stripe_call list" where
  "verify_payment_method st body =
     (case present (r_paymentMethodId body) of
        None \<Rightarrow> (Inr (), [])
      | Some pmid \<Rightarrow>
          (case paymentMethods_retrieve st pmid of
             Inr paymentMethod \<Rightarrow>
               (case present (r_customerId body) of
                  Some cid \<Rightarrow>
                    (if spm_customer paymentMethod \<noteq> Some cid
                     then (Inl (fail 400 (''Payment method '' @ pmid @
                              '' is not attached to customer '' @ cid @
                              ''. Please select a payment method for this customer.'')),
                           [PaymentMethodsRetrieve pmid])
                     else (Inr (), [PaymentMethodsRetrieve pmid]))
                | None \<Rightarrow> (Inr (), [PaymentMethodsRetrieve pmid]))
           | Inl e \<Rightarrow>
               (let errorMessage = message_or ''Payment method not found'' e
                in (Inl (fail 404
                          (if str_includes errorMessage ''No such payment_method''
                           then ''Payment method '' @ pmid @
                                '' not found. Please refresh payment methods.''
                           else errorMessage)),
                    [PaymentMethodsRetrieve pmid]))))"

text \<open>\<open>paymentIntentParams\<close> as it stands when \<open>create\<close> is called.\<close>

definition paymentIntentParams ::
  "stripe \<Rightarrow> rat \<Rightarrow> PaymentIntentRequest \<Rightarrow> PaymentIntentCreateParams" where
  "paymentIntentParams st a body =
     \<lparr>p_amount = round_cents st a,
      p_currency = (case present (r_currency body) of None \<Rightarrow> ''usd'' | Some c \<Rightarrow> c),
      p_metadata_save_card = (if r_saveCard body = Some True then ''true'' else ''false''),
      p_metadata_off_session = (if r_offSession body = Some True then ''true'' else ''false''),
      p_customer = present (r_customerId body),
      p_payment_method = present (r_paymentMethodId body),
      p_confirm = (truthy (r_paymentMethodId body) \<and> r_offSession body = Some True),
      p_off_session = (truthy (r_paymentMethodId body) \<and> r_offSession body = Some True),
      p_setup_future_usage =
        (if r_saveCard body = Some True \<and> truthy (r_customerId body)
         then Some ''off_session'' else None)\<rparr>"

text \<open>The response built from the intent the provider returns.\<close>

definition intent_response :: "stripe_payment_intent \<Rightarrow> PaymentIntentResponse" where
  "intent_response paymentIntent =
     (if pi_status paymentIntent = ''requires_action''
      then \<lparr>pir_clientSecret = present (pi_client_secret paymentIntent),
            pir_paymentIntentId = pi_id paymentIntent,
            pir_status = pi_status paymentIntent,
            pir_requiresAction = Some True\<rparr>
      else if pi_status paymentIntent = ''requires_payment_method''
              \<or> pi_status paymentIntent = ''requires_confirmation''
      then \<lparr>pir_clientSecret = present (pi_client_secret paymentIntent),
            pir_paymentIntentId = pi_id paymentIntent,
            pir_status = pi_status paymentIntent,
            pir_requiresAction = None\<rparr>
      else \<lparr>pir_clientSecret = None,
            pir_paymentIntentId = pi_id paymentIntent,
            pir_status = pi_status paymentIntent,
            pir_requiresAction = None\<rparr>)"

text \<open>The outer \<open>catch\<close> of \<open>POST\<close>.\<close>

definition create_error :: "thrown \<Rightarrow> ApiResponse" where
  "create_error e =
     (case e of
        NotAnError \<Rightarrow> fail 500 ''Failed to create PaymentIntent''
      | JsError msg \<Rightarrow>
          fail (if str_includes msg ''authentication_required'' then 402
                else if str_includes msg ''card_declined'' then 402
                else 500) msg)"

definition payment_intent_POST ::
  "stripe \<Rightarrow> PaymentIntentRequest \<Rightarrow> ApiResponse \<times> stripe_call list" where
  "payment_intent_POST st body =
     (case r_amount body of
        None \<Rightarrow> (fail 400 ''Valid amount is required'', [])
      | Some a \<Rightarrow>
          (if a \<le> 0 then (fail 400 ''Valid amount is required'', [])
           else
             (case verify_customer st body of
                (Inl r, calls1) \<Rightarrow> (r, calls1)
              | (Inr u, calls1) \<Rightarrow>
                  (case verify_payment_method st body of
                     (Inl r, calls2) \<Rightarrow> (r, calls1 @ calls2)
                   | (Inr u', calls2) \<Rightarrow>
                       (let params = paymentIntentParams st a body;
                            calls = calls1 @ calls2 @ [PaymentIntentsCreate params]
                        in (case paymentIntents_create st params of
                              Inl e \<Rightarrow> (create_error e, calls)
                            | Inr paymentIntent \<Rightarrow>
                                (ok (IntentResponse (intent_response paymentIntent)), calls)))))))"

text \<open>
  The module of this route imports the provider and the types only: it has no access
  to the stores, and the mirror after a request is the mirror before it.
\<close>

definition payment_intent_POST_mirror ::
  "stripe \<Rightarrow> PaymentIntentRequest \<Rightarrow> mirror \<Rightarrow> ApiResponse \<times> mirror" where
  "payment_intent_POST_mirror st body m = (fst (payment_intent_POST st body), m)"


text \<open>The response of \<open>PATCH\<close> carries the client secret only when action is required.\<close>

definition update_response :: "stripe_payment_intent \<Rightarrow> PaymentIntentResponse" where
  "update_response paymentIntent =
     (if pi_status paymentIntent = ''requires_action''
      then \<lparr>pir_clientSecret = present (pi_client_secret paymentIntent),
            pir_paymentIntentId = pi_id paymentIntent,
            pir_status = pi_status paymentIntent,
            pir_requiresAction = Some True\<rparr>
      else \<lparr>pir_clientSecret = None,
            pir_paymentIntentId = pi_id paymentIntent,
            pir_status = pi_status paymentIntent,
            pir_requiresAction = None\<rparr>)"

definition payment_intent_PATCH ::
  "stripe \<Rightarrow> string option \<Rightarrow> string option \<Rightarrow> ApiResponse \<times> stripe_call list" where
  \<open>payment_intent_PATCH st id_param action_param =
     (case present id_param of
        None \<Rightarrow> (fail 400 ''PaymentIntent ID is required'', [])
      | Some paymentIntentId \<Rightarrow>
          (if action_param = Some ''confirm'' then
             (case paymentIntents_confirm st paymentIntentId of
                Inl e \<Rightarrow> (fail 500 (message_or ''Failed to update PaymentIntent'' e),
                          [PaymentIntentsConfirm paymentIntentId])
              | Inr paymentIntent \<Rightarrow>
                  (ok (IntentResponse (update_response paymentIntent)),
                   [PaymentIntentsConfirm paymentIntentId]))
           else if action_param = Some ''cancel'' then
             (case paymentIntents_cancel st paymentIntentId of
                Inl e \<Rightarrow> (fail 500 (message_or ''Failed to update PaymentIntent'' e),
                          [PaymentIntentsCancel paymentIntentId])
              | Inr paymentIntent \<Rightarrow>
                  (ok (IntentResponse (update_response paymentIntent)),
                   [PaymentIntentsCancel paymentIntentId]))
           else (fail 400 ''Invalid action. Use "confirm" or "cancel"'', [])))\<close>

subsection \<open>app/api/setup-intent/route.ts\<close>




section \<open>The retry of the off-session form (component \<open>OffSessionPayment\<close>)\<close>

text \<open>
  The state of the component that \<open>handleRetryPayment\<close> reads. \<open>authenticateUrl\<close> is
  where the id of the intent of the earlier attempt is kept
  (\<open>/authenticate?payment_intent=...\<close>); the retry sets it to \<open>null\<close> and does not read it.
\<close>

record OffSessionPayment =
  customerId_prop :: "string option"
  selectedPaymentMethodId :: string
  amount_text :: string
  currency_state :: string
  authenticateUrl :: "string option"

text \<open>
  \<open>handleRetryPayment\<close> yields the body of the request it sends with
  \<open>POST /api/payment-intent\<close>, or nothing when no payment method is selected.
  \<open>parseFloat\<close> is a parameter; \<open>NaN\<close> is \<open>None\<close> and is serialised as \<open>null\<close>.
\<close>

definition handleRetryPayment ::
  "(string \<Rightarrow> rat option) \<Rightarrow> OffSessionPayment \<Rightarrow> PaymentIntentRequest option" where
  "handleRetryPayment parseFloat c =
     (if selectedPaymentMethodId c = [] then None
      else Some \<lparr>r_customerId = customerId_prop c,
                 r_amount = parseFloat (amount_text c),
                 r_currency = Some (currency_state c),
                 r_paymentMethodId = Some (selectedPaymentMethodId c),
                 r_saveCard = None,
                 r_offSession = Some True\<rparr>)"

text \<open>The calls to the provider that a press of the retry button leads to.\<close>

definition retry_calls ::
  "stripe \<Rightarrow> (string \<Rightarrow> rat option) \<Rightarrow> OffSessionPayment \<Rightarrow> stripe_call list" where
  "retry_calls st parseFloat c =
     (case handleRetryPayment parseFloat c of
        None \<Rightarrow> []
      | Some request \<Rightarrow> snd (payment_intent_POST st request))"

section \<open>The default invariant\<close>

text \<open>The records of a customer that carry \<open>isDefault = true\<close>.\<close>

definition defaults_of :: "string \<Rightarrow> SavedPaymentMethod list \<Rightarrow> SavedPaymentMethod list" where
  "defaults_of c pms = filter (\<lambda>pm. customerId pm = c \<and> isDefault pm = Some True) pms"

section \<open>Sample data\<close>

text \<open>
  A provider that accepts every call and a small mirror, used to evaluate the handlers
  on concrete inputs. The sample provider accepts the signature \<open>t=1,v1=valid\<close> only and
  reads the event off the body. Its \<open>round_cents\<close> rounds the exact product; the samples
  use the amount 25 only, where the product in double precision is exact.
\<close>

definition sample_customer :: "string \<Rightarrow> stripe_customer" where
  "sample_customer i =
     \<lparr>sc_id = i, sc_email = Some ''ann@example.com'', sc_name = Some ''Ann'',
      sc_created = 1700000000, sc_deleted = False\<rparr>"

definition sample_payment_method :: "string \<Rightarrow> string option \<Rightarrow> stripe_payment_method" where
  "sample_payment_method i c =
     \<lparr>spm_id = i, spm_customer = c,
      spm_card = Some \<lparr>brand = ''visa'', last4 = ''4242'', exp_month = 12, exp_year = 2030\<rparr>,
      spm_created = 1700000000\<rparr>"

definition sample_intent :: "string \<Rightarrow> string \<Rightarrow> stripe_payment_intent" where
  "sample_intent i s =
     \<lparr>pi_id = i, pi_status = s, pi_client_secret = Some ''secret'',
      pi_setup_future_usage = None, pi_payment_method = None, pi_customer = None\<rparr>"

definition sample_setup_intent :: "string \<Rightarrow> stripe_setup_intent" where
  "sample_setup_intent i =
     \<lparr>si_id = i, si_client_secret = Some ''secret'', si_payment_method = None,
      si_customer = None\<rparr>"

definition sample_event :: "string \<Rightarrow> stripe_event" where
  "sample_event body =
     (if body = ''deleted'' then
        \<lparr>ev_id = ''evt_2'', ev_payload = CustomerDeleted (sample_customer ''cus_B'')\<rparr>
      else if body = ''attached'' then
        \<lparr>ev_id = ''evt_1'',
         ev_payload = PaymentMethodAttached (sample_payment_method ''pm_B2'' (Some ''cus_B''))\<rparr>
      else if body = ''failed'' then
        \<lparr>ev_id = ''evt_3'',
         ev_payload = PaymentIntentPaymentFailed (sample_intent ''pi_1'' ''requires_payment_method'')\<rparr>
      else \<lparr>ev_id = ''evt_0'', ev_payload = OtherEvent body\<rparr>)"

definition stripe_sample :: stripe where
  "stripe_sample =
     \<lparr>customers_retrieve = (\<lambda>i. Inr (sample_customer i)),
      customers_create = (\<lambda>e n. Inr \<lparr>sc_id = ''cus_new'', sc_email = Some e, sc_name = Some n,
                                       sc_created = 1700000000, sc_deleted = False\<rparr>),
      customers_update = (\<lambda>c p. Inr ()),
      customers_del = (\<lambda>c. Inr ()),
      customers_list = (\<lambda>a. Inr ([], False)),
      paymentMethods_retrieve = (\<lambda>i. Inr (sample_payment_method i (Some ''cus_A''))),
      paymentMethods_attach = (\<lambda>i c. Inr (sample_payment_method i (Some c))),
      paymentMethods_detach = (\<lambda>i. Inr ()),
      paymentMethods_list = (\<lambda>c. Inr []),
      paymentIntents_create = (\<lambda>p. Inr (sample_intent ''pi_new'' ''succeeded'')),
      paymentIntents_retrieve = (\<lambda>i. Inr (sample_intent i ''requires_action'')),
      paymentIntents_confirm = (\<lambda>i. Inr (sample_intent i ''succeeded'')),
      paymentIntents_cancel = (\<lambda>i. Inr (sample_intent i ''canceled'')),
      setupIntents_create = (\<lambda>c u. Inr (sample_setup_intent ''seti_1'')),
      setupIntents_retrieve = (\<lambda>i. Inr (sample_setup_intent i)),
      webhooks_constructEvent =
        (\<lambda>body signature secret.
           if signature = ''t=1,v1=valid'' then Inr (sample_event body)
           else Inl (JsError ''No signatures found matching the expected signature for payload'')),
      STRIPE_WEBHOOK_SECRET = ''whsec_test'',
      currentYear = 2026,
      round_cents = (\<lambda>a. \<lfloor>a * 100 + 1 / 2\<rfloor>)\<rparr>"

text \<open>
  The sample provider, declining every charge the way the SDK reports a declined card:
  an error whose \<open>code\<close> is \<open>card_declined\<close> and whose message is the sentence below.
  The route reads the message only, which is what the thrown value of the model holds.
\<close>

definition stripe_declining :: stripe where
  "stripe_declining =
     stripe_sample\<lparr>paymentIntents_create := (\<lambda>p. Inl (JsError ''Your card was declined.''))\<rparr>"


definition sample_saved :: "string \<Rightarrow> string \<Rightarrow> bool \<Rightarrow> SavedPaymentMethod" where
  "sample_saved i c d =
     \<lparr>pm_id = i, customerId = c,
      card = \<lparr>brand = ''visa'', last4 = ''4242'', exp_month = 12, exp_year = 2030\<rparr>,
      created = 1700000000000, isDefault = Some d\<rparr>"

definition sample_local_customer :: "string \<Rightarrow> string \<Rightarrow> CustomerData" where
  "sample_local_customer i e =
     \<lparr>cus_id = i, cus_email = e, cus_name = ''Ann'', cus_created = 1700000000000,
      cus_paymentMethods = []\<rparr>"

definition mirror_sample :: mirror where
  "mirror_sample =
     \<lparr>CUSTOMERS_FILE =
        [sample_local_customer ''cus_A'' ''ann@example.com'',
         sample_local_customer ''cus_B'' ''bob@example.com''],
      PAYMENT_METHODS_FILE =
        [sample_saved ''pm_A1'' ''cus_A'' True,
         sample_saved ''pm_B1'' ''cus_B'' True,
         sample_saved ''pm_B2'' ''cus_B'' False]\<rparr>"

text \<open>
  The off-session form after an attempt that required authentication: the id of that
  attempt's intent is in \<open>authenticateUrl\<close>.
\<close>

definition form_sample :: OffSessionPayment where
  "form_sample =
     \<lparr>customerId_prop = Some ''cus_A'',
      selectedPaymentMethodId = ''pm_A1'',
      amount_text = ''25.00'',
      currency_state = ''usd'',
      authenticateUrl = Some ''/authenticate?payment_intent=pi_prior''\<rparr>"

definition parseFloat_sample :: "string \<Rightarrow> rat option" where
  "parseFloat_sample s = (if s = ''25.00'' then Some 25 else None)"

section \<open>Facts about \<open>findIndex\<close>\<close>

lemma findIndex_ge_m1: "findIndex P xs \<ge> - 1"
  by (induction xs) (auto simp: Let_def)

lemma findIndex_nonneg_iff: "findIndex P xs \<ge> 0 \<longleftrightarrow> (\<exists>x \<in> set xs. P x)"
  by (induction xs) (auto simp: Let_def)

lemma findIndex_lt_length: "findIndex P xs < int (length xs)"
  by (induction xs) (auto simp: Let_def)

lemma findIndex_sat: "findIndex P xs \<ge> 0 \<Longrightarrow> P (xs ! nat (findIndex P xs))"
proof (induction xs)
  case Nil
  then show ?case by simp
next
  case (Cons x xs)
  show ?case
  proof (cases "P x")
    case True
    then show ?thesis by simp
  next
    case False
    with Cons.prems have nn: "findIndex P xs \<ge> 0"
      by (simp add: Let_def split: if_splits)
    then have "nat (findIndex P xs + 1) = Suc (nat (findIndex P xs))" by simp
    with False nn Cons.IH show ?thesis by (simp add: Let_def)
  qed
qed

lemma findIndex_first: "j < nat (findIndex P xs) \<Longrightarrow> \<not> P (xs ! j)"
proof (induction xs arbitrary: j)
  case Nil
  then show ?case by simp
next
  case (Cons x xs)
  show ?case
  proof (cases "P x")
    case True
    with Cons.prems show ?thesis by simp
  next
    case False
    show ?thesis
    proof (cases j)
      case 0
      with False show ?thesis by simp
    next
      case (Suc k)
      with Cons.prems False have "k < nat (findIndex P xs)"
        by (simp add: Let_def split: if_splits)
      with Cons.IH Suc show ?thesis by simp
    qed
  qed
qed

lemma findIndex_map: "findIndex P (map f xs) = findIndex (P \<circ> f) xs"
  by (induction xs) (auto simp: Let_def)

section \<open>Facts about the stores\<close>

lemma upsert_keys_found:
  assumes "findIndex (\<lambda>y. f y = f x) xs \<ge> 0"
  shows "map f (xs[nat (findIndex (\<lambda>y. f y = f x) xs) := x]) = map f xs"
proof -
  let ?n = "nat (findIndex (\<lambda>y. f y = f x) xs)"
  have "f (xs ! ?n) = f x" using findIndex_sat [OF assms] .
  moreover have "?n < length xs" using findIndex_lt_length [of "\<lambda>y. f y = f x" xs] assms by simp
  ultimately have "(map f xs)[?n := f x] = map f xs"
    by (metis list_update_id nth_map)
  then show ?thesis by (simp add: map_update)
qed

lemma upsert_keys_missing:
  assumes "\<not> findIndex (\<lambda>y. f y = f x) xs \<ge> 0"
  shows "f x \<notin> set (map f xs)"
  using assms by (auto simp: findIndex_nonneg_iff)

lemma find_update_first:
  assumes "findIndex P xs \<ge> 0" and "P x"
  shows "find P (xs[nat (findIndex P xs) := x]) = Some x"
  using assms
proof (induction xs)
  case Nil
  then show ?case by simp
next
  case (Cons y ys)
  show ?case
  proof (cases "P y")
    case True
    with Cons.prems show ?thesis by simp
  next
    case False
    with Cons.prems have nn: "findIndex P ys \<ge> 0"
      by (simp add: Let_def split: if_splits)
    then have "nat (findIndex P ys + 1) = Suc (nat (findIndex P ys))" by simp
    with False nn Cons show ?thesis by (simp add: Let_def)
  qed
qed

lemma find_append_new:
  assumes "\<not> findIndex P xs \<ge> 0" and "P x"
  shows "find P (xs @ [x]) = Some x"
  using assms by (induction xs) (auto simp: Let_def split: if_splits)

lemma PM_save_distinct:
  "distinct (map pm_id ps) \<Longrightarrow> distinct (map pm_id (PaymentMethodDataStore_save p ps))"
  using upsert_keys_found [of pm_id p ps] upsert_keys_missing [of pm_id p ps]
  by (auto simp: PaymentMethodDataStore_save_def Let_def)

lemma PM_save_get:
  "PaymentMethodDataStore_getById (pm_id p) (PaymentMethodDataStore_save p ps) = Some p"
  using find_update_first [of "\<lambda>pm. pm_id pm = pm_id p" ps p]
        find_append_new [of "\<lambda>pm. pm_id pm = pm_id p" ps p]
  by (auto simp: PaymentMethodDataStore_save_def PaymentMethodDataStore_getById_def Let_def)

lemma setAsDefault_keys:
  "map pm_id (PaymentMethodDataStore_setAsDefault i c ps) = map pm_id ps"
proof -
  let ?cl = "map (\<lambda>pm. if customerId pm = c then pm\<lparr>isDefault := Some False\<rparr> else pm) ps"
  have k: "map pm_id ?cl = map pm_id ps" by (induction ps) auto
  show ?thesis
  proof (cases "findIndex (\<lambda>pm. pm_id pm = i) ?cl \<ge> 0")
    case False
    then show ?thesis using k by (simp add: PaymentMethodDataStore_setAsDefault_def Let_def)
  next
    case True
    let ?n = "nat (findIndex (\<lambda>pm. pm_id pm = i) ?cl)"
    have "?n < length ?cl" using findIndex_lt_length [of "\<lambda>pm. pm_id pm = i" ?cl] True by simp
    then have "map pm_id (?cl[?n := (?cl ! ?n)\<lparr>isDefault := Some True\<rparr>]) = map pm_id ?cl"
      by (simp add: map_update list_update_same_conv)
    with True k show ?thesis by (simp add: PaymentMethodDataStore_setAsDefault_def Let_def)
  qed
qed


lemma upsert_nth:
  assumes d: "distinct (map f xs)" and nn: "findIndex (\<lambda>y. f y = f x) xs \<ge> 0"
    and j: "j < length xs"
  shows "xs[nat (findIndex (\<lambda>y. f y = f x) xs) := x] ! j = (if f (xs ! j) = f x then x else xs ! j)"
proof -
  let ?n = "nat (findIndex (\<lambda>y. f y = f x) xs)"
  have n: "?n < length xs" using findIndex_lt_length [of "\<lambda>y. f y = f x" xs] nn by simp
  have fn: "f (xs ! ?n) = f x" using findIndex_sat [OF nn] .
  show ?thesis
  proof (cases "j = ?n")
    case True
    with n fn show ?thesis by simp
  next
    case False
    have "f (xs ! j) \<noteq> f x"
    proof
      assume "f (xs ! j) = f x"
      with fn have "map f xs ! j = map f xs ! ?n" using j n by simp
      with nth_eq_iff_index_eq [OF d, of j ?n] j n have "j = ?n" by simp
      with False show False by simp
    qed
    with False show ?thesis by simp
  qed
qed

lemma filter_shorter_iff: "length (filter P xs) < length xs \<longleftrightarrow> (\<exists>x \<in> set xs. \<not> P x)"
proof (induction xs)
  case Nil
  then show ?case by simp
next
  case (Cons x xs)
  have "length (filter P xs) \<le> length xs" by simp
  with Cons show ?case by auto
qed

lemma filter_not_shorter: "\<not> length (filter P xs) < length xs \<Longrightarrow> filter P xs = xs"
  by (simp add: filter_shorter_iff filter_id_conv)

lemma PM_delete_result:
  "fst (PaymentMethodDataStore_delete i ps) \<longleftrightarrow> (\<exists>x \<in> set ps. pm_id x = i)"
  by (simp add: PaymentMethodDataStore_delete_def Let_def filter_shorter_iff)

lemma PM_delete_state:
  "snd (PaymentMethodDataStore_delete i ps) = filter (\<lambda>pm. pm_id pm \<noteq> i) ps"
  by (simp add: PaymentMethodDataStore_delete_def Let_def filter_not_shorter)

lemma Cus_delete_result:
  "fst (CustomerDataStore_delete i cs) \<longleftrightarrow> (\<exists>x \<in> set cs. cus_id x = i)"
  by (simp add: CustomerDataStore_delete_def Let_def filter_shorter_iff)

lemma Cus_delete_state:
  "snd (CustomerDataStore_delete i cs) = filter (\<lambda>c. cus_id c \<noteq> i) cs"
  by (simp add: CustomerDataStore_delete_def Let_def filter_not_shorter)


lemma Cus_save_distinct:
  "distinct (map cus_id cs) \<Longrightarrow> distinct (map cus_id (CustomerDataStore_save c cs))"
  using upsert_keys_found [of cus_id c cs] upsert_keys_missing [of cus_id c cs]
  by (auto simp: CustomerDataStore_save_def Let_def)

lemma Cus_save_get:
  "CustomerDataStore_getById (cus_id c) (CustomerDataStore_save c cs) = Some c"
  using find_update_first [of "\<lambda>x. cus_id x = cus_id c" cs c]
        find_append_new [of "\<lambda>x. cus_id x = cus_id c" cs c]
  by (auto simp: CustomerDataStore_save_def CustomerDataStore_getById_def Let_def)

lemma PM_save_in_place:
  assumes "distinct (map pm_id ps)" and "\<exists>x \<in> set ps. pm_id x = pm_id p"
  shows "length (PaymentMethodDataStore_save p ps) = length ps
       \<and> (\<forall>j < length ps. PaymentMethodDataStore_save p ps ! j
              = (if pm_id (ps ! j) = pm_id p then p else ps ! j))"
proof -
  from assms(2) have nn: "findIndex (\<lambda>y. pm_id y = pm_id p) ps \<ge> 0"
    by (simp add: findIndex_nonneg_iff)
  then have "PaymentMethodDataStore_save p ps = ps[nat (findIndex (\<lambda>y. pm_id y = pm_id p) ps) := p]"
    by (simp add: PaymentMethodDataStore_save_def Let_def)
  with upsert_nth [OF assms(1) nn] show ?thesis by simp
qed

lemma PM_save_append:
  assumes "\<not> (\<exists>x \<in> set ps. pm_id x = pm_id p)"
  shows "PaymentMethodDataStore_save p ps = ps @ [p]"
  using assms by (simp add: PaymentMethodDataStore_save_def Let_def findIndex_nonneg_iff)

lemma Cus_save_in_place:
  assumes "distinct (map cus_id cs)" and "\<exists>x \<in> set cs. cus_id x = cus_id c"
  shows "length (CustomerDataStore_save c cs) = length cs
       \<and> (\<forall>j < length cs. CustomerDataStore_save c cs ! j
              = (if cus_id (cs ! j) = cus_id c then c else cs ! j))"
proof -
  from assms(2) have nn: "findIndex (\<lambda>y. cus_id y = cus_id c) cs \<ge> 0"
    by (simp add: findIndex_nonneg_iff)
  then have "CustomerDataStore_save c cs = cs[nat (findIndex (\<lambda>y. cus_id y = cus_id c) cs) := c]"
    by (simp add: CustomerDataStore_save_def Let_def)
  with upsert_nth [OF assms(1) nn] show ?thesis by simp
qed

lemma Cus_save_append:
  assumes "\<not> (\<exists>x \<in> set cs. cus_id x = cus_id c)"
  shows "CustomerDataStore_save c cs = cs @ [c]"
  using assms by (simp add: CustomerDataStore_save_def Let_def findIndex_nonneg_iff)

section \<open>Uniqueness of record ids\<close>

text \<open>
  Claim C10. Each store holds at most one record per id, and every operation of the
  stores keeps it so: from a store with distinct ids, \<open>save\<close>, \<open>delete\<close> and
  \<open>setAsDefault\<close> lead to a store with distinct ids (the files start as the empty
  array). \<open>save\<close> is an upsert: when a record with the id is present, the length and
  every other position are unchanged and the record with that id is the saved one;
  otherwise the record is appended. \<open>delete\<close> returns true exactly when a record with
  the id was present, and no record with the id is left.
\<close>

theorem store_ids_unique:
  assumes "distinct (map pm_id ps)" and "distinct (map cus_id cs)"
  shows "distinct (map pm_id (PaymentMethodDataStore_save p ps))
       \<and> distinct (map pm_id (snd (PaymentMethodDataStore_delete i ps)))
       \<and> distinct (map pm_id (PaymentMethodDataStore_setAsDefault i k ps))
       \<and> distinct (map cus_id (CustomerDataStore_save c cs))
       \<and> distinct (map cus_id (snd (CustomerDataStore_delete i cs)))
       \<and> ((\<exists>x \<in> set ps. pm_id x = pm_id p) \<longrightarrow>
            length (PaymentMethodDataStore_save p ps) = length ps
            \<and> (\<forall>j < length ps. PaymentMethodDataStore_save p ps ! j
                   = (if pm_id (ps ! j) = pm_id p then p else ps ! j)))
       \<and> (\<not> (\<exists>x \<in> set ps. pm_id x = pm_id p) \<longrightarrow>
            PaymentMethodDataStore_save p ps = ps @ [p])
       \<and> ((\<exists>x \<in> set cs. cus_id x = cus_id c) \<longrightarrow>
            length (CustomerDataStore_save c cs) = length cs
            \<and> (\<forall>j < length cs. CustomerDataStore_save c cs ! j
                   = (if cus_id (cs ! j) = cus_id c then c else cs ! j)))
       \<and> (\<not> (\<exists>x \<in> set cs. cus_id x = cus_id c) \<longrightarrow>
            CustomerDataStore_save c cs = cs @ [c])
       \<and> (fst (PaymentMethodDataStore_delete i ps) \<longleftrightarrow> (\<exists>x \<in> set ps. pm_id x = i))
       \<and> (\<forall>x \<in> set (snd (PaymentMethodDataStore_delete i ps)). pm_id x \<noteq> i)
       \<and> (fst (CustomerDataStore_delete i cs) \<longleftrightarrow> (\<exists>x \<in> set cs. cus_id x = i))
       \<and> (\<forall>x \<in> set (snd (CustomerDataStore_delete i cs)). cus_id x \<noteq> i)"
proof -
  have a: "distinct (map pm_id (PaymentMethodDataStore_save p ps))"
    using assms(1) by (rule PM_save_distinct)
  have b: "distinct (map pm_id (snd (PaymentMethodDataStore_delete i ps)))"
    using assms(1) by (simp add: PM_delete_state distinct_map_filter)
  have c: "distinct (map pm_id (PaymentMethodDataStore_setAsDefault i k ps))"
    using assms(1) by (simp add: setAsDefault_keys)
  have d: "distinct (map cus_id (CustomerDataStore_save c cs))"
    using assms(2) by (rule Cus_save_distinct)
  have e: "distinct (map cus_id (snd (CustomerDataStore_delete i cs)))"
    using assms(2) by (simp add: Cus_delete_state distinct_map_filter)
  have f: "\<forall>x \<in> set (snd (PaymentMethodDataStore_delete i ps)). pm_id x \<noteq> i"
    by (simp add: PM_delete_state)
  have g: "\<forall>x \<in> set (snd (CustomerDataStore_delete i cs)). cus_id x \<noteq> i"
    by (simp add: Cus_delete_state)
  from a b c d e f g PM_save_in_place [OF assms(1), of p] PM_save_append [of ps p]
    Cus_save_in_place [OF assms(2), of c] Cus_save_append [of cs c]
    PM_delete_result [of i ps] Cus_delete_result [of i cs]
  show ?thesis by blast
qed

text \<open>The theorem at the sample mirror: an update in place, a deletion that finds its
  record and one that does not.\<close>

theorem store_ids_unique_witness:
  "distinct (map pm_id (PAYMENT_METHODS_FILE mirror_sample))
   \<and> distinct (map cus_id (CUSTOMERS_FILE mirror_sample))
   \<and> distinct (map pm_id (PaymentMethodDataStore_save (sample_saved ''pm_B1'' ''cus_B'' False)
                            (PAYMENT_METHODS_FILE mirror_sample)))
   \<and> PaymentMethodDataStore_save (sample_saved ''pm_B1'' ''cus_B'' False)
        (PAYMENT_METHODS_FILE mirror_sample)
      = [sample_saved ''pm_A1'' ''cus_A'' True, sample_saved ''pm_B1'' ''cus_B'' False,
         sample_saved ''pm_B2'' ''cus_B'' False]
   \<and> fst (PaymentMethodDataStore_delete ''pm_B1'' (PAYMENT_METHODS_FILE mirror_sample))
   \<and> \<not> fst (CustomerDataStore_delete ''cus_C'' (CUSTOMERS_FILE mirror_sample))"
proof -
  have h1: "distinct (map pm_id (PAYMENT_METHODS_FILE mirror_sample))"
    by (simp add: mirror_sample_def sample_saved_def)
  have h2: "distinct (map cus_id (CUSTOMERS_FILE mirror_sample))"
    by (simp add: mirror_sample_def sample_local_customer_def)
  have ex: "\<exists>x \<in> set (PAYMENT_METHODS_FILE mirror_sample). pm_id x = ''pm_B1''"
    by (simp add: mirror_sample_def sample_saved_def)
  have nex: "\<not> (\<exists>x \<in> set (CUSTOMERS_FILE mirror_sample). cus_id x = ''cus_C'')"
    by (simp add: mirror_sample_def sample_local_customer_def)
  have sv: "PaymentMethodDataStore_save (sample_saved ''pm_B1'' ''cus_B'' False)
        (PAYMENT_METHODS_FILE mirror_sample)
      = [sample_saved ''pm_A1'' ''cus_A'' True, sample_saved ''pm_B1'' ''cus_B'' False,
         sample_saved ''pm_B2'' ''cus_B'' False]"
    by (simp add: PaymentMethodDataStore_save_def mirror_sample_def sample_saved_def Let_def)
  from store_ids_unique [OF h1 h2, of "sample_saved ''pm_B1'' ''cus_B'' False" "''pm_B1''"]
  have "distinct (map pm_id (PaymentMethodDataStore_save (sample_saved ''pm_B1'' ''cus_B'' False)
                            (PAYMENT_METHODS_FILE mirror_sample)))"
    and "fst (PaymentMethodDataStore_delete ''pm_B1'' (PAYMENT_METHODS_FILE mirror_sample))"
    using ex by blast+
  moreover from store_ids_unique [OF h1 h2, of _ "''cus_C''"]
  have "\<not> fst (CustomerDataStore_delete ''cus_C'' (CUSTOMERS_FILE mirror_sample))"
    using nex by blast
  ultimately show ?thesis using h1 h2 sv by blast
qed

section \<open>Rejection of unverified webhook deliveries\<close>

text \<open>
  Claim C5. A delivery without a signature header (or with an empty one) is answered
  with status 400 and the error \<open>Missing signature\<close>; a delivery whose signature the
  verification rejects is answered with status 400 and the error \<open>Invalid signature\<close>.
  In both cases the mirror is returned as it was: the verification comes before the
  dispatch on the type of the event, whatever the body holds.
\<close>

theorem invalid_signature_rejected:
  "((sg = None \<or> sg = Some []) \<longrightarrow>
      webhook_POST st body sg m =
        (\<lparr>wh_status = 400, wh_error = Some ''Missing signature'', wh_received = False\<rparr>, m))
   \<and> ((sg = Some s \<and> s \<noteq> []
        \<and> webhooks_constructEvent st body s (STRIPE_WEBHOOK_SECRET st) = Inl e) \<longrightarrow>
      webhook_POST st body sg m =
        (\<lparr>wh_status = 400, wh_error = Some ''Invalid signature'', wh_received = False\<rparr>, m))"
  by (auto simp: webhook_POST_def present_def truthy_def)

text \<open>The theorem at the sample provider: a delivery without a header and one with a
  forged signature.\<close>

theorem invalid_signature_rejected_witness:
  "webhook_POST stripe_sample ''deleted'' None mirror_sample =
     (\<lparr>wh_status = 400, wh_error = Some ''Missing signature'', wh_received = False\<rparr>, mirror_sample)
   \<and> webhook_POST stripe_sample ''deleted'' (Some ''t=1,v1=forged'') mirror_sample =
     (\<lparr>wh_status = 400, wh_error = Some ''Invalid signature'', wh_received = False\<rparr>, mirror_sample)"
proof -
  have "webhooks_constructEvent stripe_sample ''deleted'' ''t=1,v1=forged''
          (STRIPE_WEBHOOK_SECRET stripe_sample)
        = Inl (JsError ''No signatures found matching the expected signature for payload'')"
    by (simp add: stripe_sample_def)
  with invalid_signature_rejected [of None stripe_sample "''deleted''" mirror_sample]
       invalid_signature_rejected [of "Some ''t=1,v1=forged''" stripe_sample "''deleted''"
          mirror_sample "''t=1,v1=forged''"]
  show ?thesis by simp
qed

section \<open>Cascade of a deleted customer\<close>

lemma fold_delete_filter:
  "fold (\<lambda>pm pms. snd (PaymentMethodDataStore_delete (pm_id pm) pms)) xs s
   = filter (\<lambda>pm. pm_id pm \<notin> pm_id ` set xs) s"
proof (induction xs arbitrary: s)
  case Nil
  then show ?case by simp
next
  case (Cons x xs)
  have "fold (\<lambda>pm pms. snd (PaymentMethodDataStore_delete (pm_id pm) pms)) (x # xs) s
        = fold (\<lambda>pm pms. snd (PaymentMethodDataStore_delete (pm_id pm) pms)) xs
            (snd (PaymentMethodDataStore_delete (pm_id x) s))"
    by simp
  also have "\<dots> = filter (\<lambda>pm. pm_id pm \<notin> pm_id ` set xs)
                      (snd (PaymentMethodDataStore_delete (pm_id x) s))"
    by (rule Cons.IH)
  also have "\<dots> = filter (\<lambda>pm. pm_id pm \<notin> pm_id ` set xs)
                      (filter (\<lambda>pm. pm_id pm \<noteq> pm_id x) s)"
    by (simp only: PM_delete_state)
  also have "\<dots> = filter (\<lambda>pm. pm_id pm \<notin> pm_id ` set (x # xs)) s"
    by (simp add: conj_commute)
  finally show ?case .
qed

lemma handleCustomerDeleted_customers:
  "CUSTOMERS_FILE (handleCustomerDeleted customer m)
   = filter (\<lambda>c. cus_id c \<noteq> sc_id customer) (CUSTOMERS_FILE m)"
  by (simp add: handleCustomerDeleted_def Let_def Cus_delete_state)

lemma handleCustomerDeleted_payment_methods:
  "PAYMENT_METHODS_FILE (handleCustomerDeleted customer m)
   = filter (\<lambda>pm. pm_id pm \<notin> pm_id ` {x \<in> set (PAYMENT_METHODS_FILE m). customerId x = sc_id customer})
            (PAYMENT_METHODS_FILE m)"
  by (simp add: handleCustomerDeleted_def Let_def fold_delete_filter
        PaymentMethodDataStore_getByCustomerId_def)

lemma handleCustomerDeleted_none_left:
  "pm \<in> set (PAYMENT_METHODS_FILE (handleCustomerDeleted customer m))
   \<Longrightarrow> customerId pm \<noteq> sc_id customer"
  by (auto simp: handleCustomerDeleted_payment_methods)

lemma handleCustomerDeleted_exact:
  assumes "distinct (map pm_id (PAYMENT_METHODS_FILE m))"
  shows "PAYMENT_METHODS_FILE (handleCustomerDeleted customer m)
         = filter (\<lambda>pm. customerId pm \<noteq> sc_id customer) (PAYMENT_METHODS_FILE m)"
proof -
  have inj: "inj_on pm_id (set (PAYMENT_METHODS_FILE m))"
    using assms by (simp add: distinct_map)
  have "pm_id pm \<notin> pm_id ` {x \<in> set (PAYMENT_METHODS_FILE m). customerId x = sc_id customer}
        \<longleftrightarrow> customerId pm \<noteq> sc_id customer"
    if "pm \<in> set (PAYMENT_METHODS_FILE m)" for pm
    using that inj by (auto dest: inj_onD)
  then show ?thesis
    by (simp add: handleCustomerDeleted_payment_methods cong: filter_cong)
qed

text \<open>
  Claim C3. A verified \<open>customer.deleted\<close> event is accepted, and in the mirror the
  handler returns there is no customer with the id of the event and no payment method
  whose \<open>customerId\<close> is that id. The customers that remain are the other customers,
  in their order, and, when the ids of the payment methods are distinct, the payment
  methods that remain are those of the other customers. The handler runs without a
  suspension point between its writes and is one transition of the mirror.
\<close>

theorem customer_deleted_cascade:
  assumes "sg = Some s" and "s \<noteq> []"
    and "webhooks_constructEvent st body s (STRIPE_WEBHOOK_SECRET st) = Inr ev"
    and "ev_payload ev = CustomerDeleted customer"
  shows "fst (webhook_POST st body sg m)
           = \<lparr>wh_status = 200, wh_error = None, wh_received = True\<rparr>
       \<and> (\<forall>c \<in> set (CUSTOMERS_FILE (snd (webhook_POST st body sg m))).
             cus_id c \<noteq> sc_id customer)
       \<and> (\<forall>pm \<in> set (PAYMENT_METHODS_FILE (snd (webhook_POST st body sg m))).
             customerId pm \<noteq> sc_id customer)
       \<and> CUSTOMERS_FILE (snd (webhook_POST st body sg m))
           = filter (\<lambda>c. cus_id c \<noteq> sc_id customer) (CUSTOMERS_FILE m)
       \<and> (distinct (map pm_id (PAYMENT_METHODS_FILE m)) \<longrightarrow>
            PAYMENT_METHODS_FILE (snd (webhook_POST st body sg m))
              = filter (\<lambda>pm. customerId pm \<noteq> sc_id customer) (PAYMENT_METHODS_FILE m))"
proof -
  from assms(1,2) have p: "present sg = Some s"
    by (simp add: present_def truthy_def)
  have r: "webhook_POST st body sg m
      = (\<lparr>wh_status = 200, wh_error = None, wh_received = True\<rparr>, handleCustomerDeleted customer m)"
    by (simp add: webhook_POST_def p assms(3) assms(4))
  have c1: "\<forall>c \<in> set (CUSTOMERS_FILE (handleCustomerDeleted customer m)). cus_id c \<noteq> sc_id customer"
    by (simp add: handleCustomerDeleted_customers)
  have c2: "\<forall>pm \<in> set (PAYMENT_METHODS_FILE (handleCustomerDeleted customer m)).
              customerId pm \<noteq> sc_id customer"
    using handleCustomerDeleted_none_left by blast
  show ?thesis
    unfolding r fst_conv snd_conv
    using c1 c2 handleCustomerDeleted_customers [of customer m]
          handleCustomerDeleted_exact [of m customer]
    by blast
qed

text \<open>The theorem at the sample mirror: customer \<open>cus_B\<close> and its two payment methods
  are removed.\<close>

theorem customer_deleted_cascade_witness:
  "snd (webhook_POST stripe_sample ''deleted'' (Some ''t=1,v1=valid'') mirror_sample)
   = \<lparr>CUSTOMERS_FILE = [sample_local_customer ''cus_A'' ''ann@example.com''],
      PAYMENT_METHODS_FILE = [sample_saved ''pm_A1'' ''cus_A'' True]\<rparr>"
proof -
  have ne: "''t=1,v1=valid'' \<noteq> []" by simp
  have ev: "webhooks_constructEvent stripe_sample ''deleted'' ''t=1,v1=valid''
              (STRIPE_WEBHOOK_SECRET stripe_sample) = Inr (sample_event ''deleted'')"
    by (simp add: stripe_sample_def)
  have pl: "ev_payload (sample_event ''deleted'') = CustomerDeleted (sample_customer ''cus_B'')"
    by (simp add: sample_event_def)
  have d: "distinct (map pm_id (PAYMENT_METHODS_FILE mirror_sample))"
    by (simp add: mirror_sample_def sample_saved_def)
  have id: "sc_id (sample_customer ''cus_B'') = ''cus_B''"
    by (simp add: sample_customer_def)
  have f1: "filter (\<lambda>c. cus_id c \<noteq> ''cus_B'') (CUSTOMERS_FILE mirror_sample)
            = [sample_local_customer ''cus_A'' ''ann@example.com'']"
    by (simp add: mirror_sample_def sample_local_customer_def)
  have f2: "filter (\<lambda>pm. customerId pm \<noteq> ''cus_B'') (PAYMENT_METHODS_FILE mirror_sample)
            = [sample_saved ''pm_A1'' ''cus_A'' True]"
    by (simp add: mirror_sample_def sample_saved_def)
  from customer_deleted_cascade [OF refl ne ev pl, of mirror_sample] d
  have "CUSTOMERS_FILE (snd (webhook_POST stripe_sample ''deleted'' (Some ''t=1,v1=valid'') mirror_sample))
          = [sample_local_customer ''cus_A'' ''ann@example.com'']"
    and "PAYMENT_METHODS_FILE (snd (webhook_POST stripe_sample ''deleted'' (Some ''t=1,v1=valid'') mirror_sample))
          = [sample_saved ''pm_A1'' ''cus_A'' True]"
    unfolding id f1 f2 by blast+
  then show ?thesis
    by (cases "snd (webhook_POST stripe_sample ''deleted'' (Some ''t=1,v1=valid'') mirror_sample)") simp
qed

section \<open>Validation of the amount of a charge\<close>

lemma fail_neq_ok: "fail c msg \<noteq> ok d"
  by (simp add: fail_def ok_def)

lemma fail_eq_iff: "fail c msg = fail c' msg' \<longleftrightarrow> c = c' \<and> msg = msg'"
  by (auto simp: fail_def)

lemma verify_customer_status:
  "fst (verify_customer st body) = Inl r \<Longrightarrow> status r = 404"
  by (auto simp: verify_customer_def fail_def Let_def split: option.splits sum.splits if_splits)

lemma verify_payment_method_not_amount:
  "fst (verify_payment_method st body) = Inl r \<Longrightarrow> r \<noteq> fail 400 ''Valid amount is required''"
  by (auto simp: verify_payment_method_def fail_def Let_def
           split: option.splits sum.splits if_splits)

lemma create_error_status: "status (create_error e) = 402 \<or> status (create_error e) = 500"
  by (simp add: create_error_def fail_def split: thrown.splits)

text \<open>
  Claim C7. A request to create a charge intent whose amount is missing or not greater
  than zero is answered with status 400 and the envelope
  \<open>{success: false, error: 'Valid amount is required'}\<close>, and no call to the provider is
  made. When the amount is greater than zero the answer is never that one: the handler
  goes on past the check.
\<close>

theorem amount_validation:
  "((r_amount body = None \<or> (\<exists>a. r_amount body = Some a \<and> a \<le> 0)) \<longrightarrow>
      payment_intent_POST st body =
        (\<lparr>status = 400, success = False, data = None,
          error = Some ''Valid amount is required''\<rparr>, []))
   \<and> ((\<exists>a. r_amount body = Some a \<and> 0 < a) \<longrightarrow>
      fst (payment_intent_POST st body) \<noteq>
        \<lparr>status = 400, success = False, data = None,
         error = Some ''Valid amount is required''\<rparr>)"
proof (intro conjI impI)
  assume "r_amount body = None \<or> (\<exists>a. r_amount body = Some a \<and> a \<le> 0)"
  then show "payment_intent_POST st body =
        (\<lparr>status = 400, success = False, data = None,
          error = Some ''Valid amount is required''\<rparr>, [])"
    by (auto simp: payment_intent_POST_def fail_def)
next
  assume "\<exists>a. r_amount body = Some a \<and> 0 < a"
  then obtain a where a: "r_amount body = Some a" "0 < a" by blast
  let ?bad = "fail 400 ''Valid amount is required''"
  obtain vc c1 where vc: "verify_customer st body = (vc, c1)" by (cases "verify_customer st body")
  obtain vp c2 where vp: "verify_payment_method st body = (vp, c2)"
    by (cases "verify_payment_method st body")
  have "fst (payment_intent_POST st body) \<noteq> ?bad"
  proof (cases vc)
    case (Inl r)
    with vc verify_customer_status [of st body r] have "status r = 404" by simp
    then have "r \<noteq> ?bad" by (auto simp: fail_def)
    with Inl vc a show ?thesis by (simp add: payment_intent_POST_def)
  next
    case (Inr u)
    note vcr = this
    show ?thesis
    proof (cases vp)
      case (Inl r)
      with vp verify_payment_method_not_amount [of st body r] have "r \<noteq> ?bad" by simp
      with Inl vp vcr vc a show ?thesis by (simp add: payment_intent_POST_def)
    next
      case (Inr u')
      show ?thesis
      proof (cases "paymentIntents_create st (paymentIntentParams st a body)")
        case (Inl e)
        from create_error_status [of e] have "create_error e \<noteq> ?bad"
          by (auto simp: fail_def)
        with Inl Inr vp vcr vc a show ?thesis
          by (simp add: payment_intent_POST_def Let_def)
      next
        case (Inr paymentIntent)
        with \<open>vp = Inr u'\<close> vp vcr vc a show ?thesis
          by (simp add: payment_intent_POST_def Let_def ok_def fail_def)
      qed
    qed
  qed
  then show "fst (payment_intent_POST st body) \<noteq>
        \<lparr>status = 400, success = False, data = None,
         error = Some ''Valid amount is required''\<rparr>"
    by (simp add: fail_def)
qed

text \<open>The theorem at the amounts 0 and 25.\<close>

theorem amount_validation_witness:
  "payment_intent_POST stripe_sample
     \<lparr>r_customerId = Some ''cus_A'', r_amount = Some 0, r_currency = None,
      r_paymentMethodId = None, r_saveCard = None, r_offSession = None\<rparr>
   = (\<lparr>status = 400, success = False, data = None,
       error = Some ''Valid amount is required''\<rparr>, [])
   \<and> fst (payment_intent_POST stripe_sample
     \<lparr>r_customerId = Some ''cus_A'', r_amount = Some 25, r_currency = None,
      r_paymentMethodId = None, r_saveCard = None, r_offSession = None\<rparr>)
     \<noteq> \<lparr>status = 400, success = False, data = None,
         error = Some ''Valid amount is required''\<rparr>"
  using amount_validation [of "\<lparr>r_customerId = Some ''cus_A'', r_amount = Some 0, r_currency = None,
      r_paymentMethodId = None, r_saveCard = None, r_offSession = None\<rparr>" stripe_sample]
    amount_validation [of "\<lparr>r_customerId = Some ''cus_A'', r_amount = Some 25, r_currency = None,
      r_paymentMethodId = None, r_saveCard = None, r_offSession = None\<rparr>" stripe_sample]
  by simp

section \<open>Creation of a customer with a known email\<close>

text \<open>
  Claim C9, as stated, fails on a request whose email matches a local record and whose
  name is empty: the check of the required fields comes first and answers 400.
\<close>

theorem create_customer_empty_name_counterexample:
  "CustomerDataStore_getByEmail ''ann@example.com'' (CUSTOMERS_FILE mirror_sample)
     = Some (sample_local_customer ''cus_A'' ''ann@example.com'')
   \<and> customers_POST stripe_sample \<lparr>r_email = Some ''ann@example.com'', r_name = Some []\<rparr>
       mirror_sample
     = (\<lparr>status = 400, success = False, data = None,
         error = Some ''Email and name are required''\<rparr>, [], mirror_sample)"
  by (simp add: customers_POST_def CustomerDataStore_getByEmail_def mirror_sample_def
        sample_local_customer_def present_def truthy_def fail_def)

text \<open>
  Claim C9, amended. A request to create a customer with a non-empty email and a
  non-empty name, whose email is the email of a record of the local store, is answered
  with success and the first such record; no call to the provider is made and the mirror
  is unchanged.
\<close>

theorem create_customer_dedup:
  assumes "r_email body = Some e" and "e \<noteq> []" and "r_name body = Some n" and "n \<noteq> []"
    and "CustomerDataStore_getByEmail e (CUSTOMERS_FILE m) = Some existingCustomer"
  shows "customers_POST st body m
         = (\<lparr>status = 200, success = True, data = Some (ExistingCustomer existingCustomer),
             error = None\<rparr>, [], m)"
  using assms by (simp add: customers_POST_def present_def truthy_def ok_def)

text \<open>The amended claim at the sample mirror.\<close>

theorem create_customer_dedup_witness:
  "customers_POST stripe_sample \<lparr>r_email = Some ''ann@example.com'', r_name = Some ''Ann B''\<rparr>
     mirror_sample
   = (\<lparr>status = 200, success = True,
       data = Some (ExistingCustomer (sample_local_customer ''cus_A'' ''ann@example.com'')),
       error = None\<rparr>, [], mirror_sample)"
proof -
  have g: "CustomerDataStore_getByEmail ''ann@example.com'' (CUSTOMERS_FILE mirror_sample)
     = Some (sample_local_customer ''cus_A'' ''ann@example.com'')"
    by (simp add: CustomerDataStore_getByEmail_def mirror_sample_def sample_local_customer_def)
  show ?thesis
    by (rule create_customer_dedup [OF _ _ _ _ g, of _ "''Ann B''"]) simp_all
qed

section \<open>A declined charge\<close>

text \<open>
  Claim C6 fails on the code at a declined card as the SDK reports it. The route
  answers 402 when the message of the error contains \<open>card_declined\<close>, but the SDK
  carries \<open>card_declined\<close> in the code of the error, and the message reads
  \<open>Your card was declined.\<close> For an off-session charge that asks to save the card the
  provider is asked to create and confirm the intent; its decline is answered with status
  500 and the message alone. The mirror is unchanged, as the claim says.
\<close>

theorem declined_charge_answered_500:
  "payment_intent_POST stripe_declining
     \<lparr>r_customerId = Some ''cus_A'', r_amount = Some 25, r_currency = Some ''usd'',
      r_paymentMethodId = Some ''pm_A1'', r_saveCard = Some True, r_offSession = Some True\<rparr>
   = (\<lparr>status = 500, success = False, data = None, error = Some ''Your card was declined.''\<rparr>,
      [CustomersRetrieve ''cus_A'', PaymentMethodsRetrieve ''pm_A1'',
       PaymentIntentsCreate
         \<lparr>p_amount = 2500, p_currency = ''usd'', p_metadata_save_card = ''true'',
          p_metadata_off_session = ''true'', p_customer = Some ''cus_A'',
          p_payment_method = Some ''pm_A1'', p_confirm = True, p_off_session = True,
          p_setup_future_usage = Some ''off_session''\<rparr>])
   \<and> payment_intent_POST_mirror stripe_declining
     \<lparr>r_customerId = Some ''cus_A'', r_amount = Some 25, r_currency = Some ''usd'',
      r_paymentMethodId = Some ''pm_A1'', r_saveCard = Some True, r_offSession = Some True\<rparr>
     mirror_sample
   = (\<lparr>status = 500, success = False, data = None, error = Some ''Your card was declined.''\<rparr>,
      mirror_sample)"
proof -
  let ?req = "\<lparr>r_customerId = Some ''cus_A'', r_amount = Some 25, r_currency = Some ''usd'',
      r_paymentMethodId = Some ''pm_A1'', r_saveCard = Some True, r_offSession = Some True\<rparr>"
  have vc: "verify_customer stripe_declining ?req = (Inr (), [CustomersRetrieve ''cus_A''])"
    by (simp add: verify_customer_def stripe_declining_def stripe_sample_def present_def
          truthy_def sample_customer_def)
  have vp: "verify_payment_method stripe_declining ?req
            = (Inr (), [PaymentMethodsRetrieve ''pm_A1''])"
    by (simp add: verify_payment_method_def stripe_declining_def stripe_sample_def present_def
          truthy_def sample_payment_method_def)
  have fl: "round_cents stripe_declining 25 = 2500"
    by (simp add: stripe_declining_def stripe_sample_def floor_unique)
  have pr: "paymentIntentParams stripe_declining 25 ?req
            = \<lparr>p_amount = 2500, p_currency = ''usd'', p_metadata_save_card = ''true'',
          p_metadata_off_session = ''true'', p_customer = Some ''cus_A'',
          p_payment_method = Some ''pm_A1'', p_confirm = True, p_off_session = True,
          p_setup_future_usage = Some ''off_session''\<rparr>"
    unfolding paymentIntentParams_def fl by (simp add: present_def truthy_def)
  have cr: "paymentIntents_create stripe_declining p = Inl (JsError ''Your card was declined.'')" for p
    by (simp add: stripe_declining_def)
  have ce: "create_error (JsError ''Your card was declined.'')
            = \<lparr>status = 500, success = False, data = None,
               error = Some ''Your card was declined.''\<rparr>"
    by (simp add: create_error_def fail_def)
  have "payment_intent_POST stripe_declining ?req
        = (\<lparr>status = 500, success = False, data = None, error = Some ''Your card was declined.''\<rparr>,
           [CustomersRetrieve ''cus_A'', PaymentMethodsRetrieve ''pm_A1'',
            PaymentIntentsCreate (paymentIntentParams stripe_declining 25 ?req)])"
    by (simp add: payment_intent_POST_def vc vp cr ce Let_def)
  then show ?thesis
    by (simp add: payment_intent_POST_mirror_def pr)
qed

section \<open>Retry of an off-session charge\<close>

text \<open>
  Claim C4, as stated, fails on the retry of the off-session form. With the id of the
  earlier intent (\<open>pi_prior\<close>) at hand, the retry sends a new request to create a
  charge: the provider is asked to retrieve the customer and the payment method and to
  create an intent, and is asked neither to confirm nor to retrieve \<open>pi_prior\<close>.
\<close>

theorem retry_creates_new_intent_counterexample:
  "retry_calls stripe_sample parseFloat_sample form_sample
   = [CustomersRetrieve ''cus_A'', PaymentMethodsRetrieve ''pm_A1'',
      PaymentIntentsCreate
        \<lparr>p_amount = 2500, p_currency = ''usd'', p_metadata_save_card = ''false'',
         p_metadata_off_session = ''true'', p_customer = Some ''cus_A'',
         p_payment_method = Some ''pm_A1'', p_confirm = True, p_off_session = True,
         p_setup_future_usage = None\<rparr>]"
proof -
  let ?req = "\<lparr>r_customerId = Some ''cus_A'', r_amount = Some 25, r_currency = Some ''usd'',
      r_paymentMethodId = Some ''pm_A1'', r_saveCard = None, r_offSession = Some True\<rparr>"
  have rq: "handleRetryPayment parseFloat_sample form_sample = Some ?req"
    by (simp add: handleRetryPayment_def form_sample_def parseFloat_sample_def)
  have vc: "verify_customer stripe_sample ?req = (Inr (), [CustomersRetrieve ''cus_A''])"
    by (simp add: verify_customer_def stripe_sample_def present_def truthy_def
          sample_customer_def)
  have vp: "verify_payment_method stripe_sample ?req = (Inr (), [PaymentMethodsRetrieve ''pm_A1''])"
    by (simp add: verify_payment_method_def stripe_sample_def present_def truthy_def
          sample_payment_method_def)
  have fl: "round_cents stripe_sample 25 = 2500"
    by (simp add: stripe_sample_def floor_unique)
  have pr: "paymentIntentParams stripe_sample 25 ?req
            = \<lparr>p_amount = 2500, p_currency = ''usd'', p_metadata_save_card = ''false'',
         p_metadata_off_session = ''true'', p_customer = Some ''cus_A'',
         p_payment_method = Some ''pm_A1'', p_confirm = True, p_off_session = True,
         p_setup_future_usage = None\<rparr>"
    unfolding paymentIntentParams_def fl by (simp add: present_def truthy_def)
  have cr: "paymentIntents_create stripe_sample p = Inr (sample_intent ''pi_new'' ''succeeded'')" for p
    by (simp add: stripe_sample_def)
  have "snd (payment_intent_POST stripe_sample ?req)
        = [CustomersRetrieve ''cus_A'', PaymentMethodsRetrieve ''pm_A1'',
           PaymentIntentsCreate (paymentIntentParams stripe_sample 25 ?req)]"
    by (simp add: payment_intent_POST_def vc vp cr Let_def)
  then show ?thesis
    by (simp add: retry_calls_def rq pr)
qed

text \<open>
  Claim C4, amended. A retry requested with the id of the earlier intent, through the
  action \<open>confirm\<close> of \<open>PATCH\<close>, makes one call to the provider, the confirmation of
  that intent; no request to \<open>PATCH\<close> creates an intent. The retry of the off-session
  form does not depend on the intent of the earlier attempt: it sends the same request
  to create a charge whatever \<open>authenticateUrl\<close> holds.
\<close>

theorem confirm_reuses_intent:
  "((id_param = Some i \<and> i \<noteq> []) \<longrightarrow>
      snd (payment_intent_PATCH st id_param (Some ''confirm'')) = [PaymentIntentsConfirm i])
   \<and> (\<forall>p. PaymentIntentsCreate p \<notin> set (snd (payment_intent_PATCH st id_param action_param)))
   \<and> handleRetryPayment parseFloat (c\<lparr>authenticateUrl := u\<rparr>) = handleRetryPayment parseFloat c"
proof (intro conjI impI allI)
  assume "id_param = Some i \<and> i \<noteq> []"
  then have p: "present id_param = Some i" by (simp add: present_def truthy_def)
  show "snd (payment_intent_PATCH st id_param (Some ''confirm'')) = [PaymentIntentsConfirm i]"
    by (simp add: payment_intent_PATCH_def p split: sum.splits)
next
  fix p
  show "PaymentIntentsCreate p \<notin> set (snd (payment_intent_PATCH st id_param action_param))"
    by (simp add: payment_intent_PATCH_def split: option.splits sum.splits)
next
  show "handleRetryPayment parseFloat (c\<lparr>authenticateUrl := u\<rparr>) = handleRetryPayment parseFloat c"
    by (simp add: handleRetryPayment_def)
qed

text \<open>The amended claim at the sample provider, for the intent \<open>pi_prior\<close>.\<close>

theorem confirm_reuses_intent_witness:
  "payment_intent_PATCH stripe_sample (Some ''pi_prior'') (Some ''confirm'')
   = (\<lparr>status = 200, success = True,
       data = Some (IntentResponse \<lparr>pir_clientSecret = None, pir_paymentIntentId = ''pi_prior'',
                                     pir_status = ''succeeded'', pir_requiresAction = None\<rparr>),
       error = None\<rparr>,
      [PaymentIntentsConfirm ''pi_prior''])"
proof -
  from confirm_reuses_intent [of "Some ''pi_prior''" "''pi_prior''" stripe_sample]
  have "snd (payment_intent_PATCH stripe_sample (Some ''pi_prior'') (Some ''confirm''))
        = [PaymentIntentsConfirm ''pi_prior'']"
    by simp
  moreover have "fst (payment_intent_PATCH stripe_sample (Some ''pi_prior'') (Some ''confirm''))
        = \<lparr>status = 200, success = True,
       data = Some (IntentResponse \<lparr>pir_clientSecret = None, pir_paymentIntentId = ''pi_prior'',
                                     pir_status = ''succeeded'', pir_requiresAction = None\<rparr>),
       error = None\<rparr>"
    by (simp add: payment_intent_PATCH_def present_def truthy_def stripe_sample_def
          sample_intent_def update_response_def ok_def)
  ultimately show ?thesis by (simp add: prod_eq_iff)
qed

section \<open>Failure responses\<close>



















section \<open>Redelivery of a webhook event\<close>

lemma PM_save_Nil: "PaymentMethodDataStore_save p [] = [p]"
  by (simp add: PaymentMethodDataStore_save_def)

lemma PM_save_Cons:
  "PaymentMethodDataStore_save p (y # ys)
   = (if pm_id y = pm_id p then p # ys else y # PaymentMethodDataStore_save p ys)"
proof (cases "pm_id y = pm_id p")
  case True
  then show ?thesis by (simp add: PaymentMethodDataStore_save_def)
next
  case False
  show ?thesis
  proof (cases "findIndex (\<lambda>pm. pm_id pm = pm_id p) ys \<ge> 0")
    case True
    then have "nat (findIndex (\<lambda>pm. pm_id pm = pm_id p) ys + 1)
               = Suc (nat (findIndex (\<lambda>pm. pm_id pm = pm_id p) ys))"
      by simp
    with True False show ?thesis
      by (simp add: PaymentMethodDataStore_save_def Let_def)
  next
    case nf: False
    with False show ?thesis
      by (simp add: PaymentMethodDataStore_save_def Let_def)
  qed
qed

lemma PM_save_idem:
  "PaymentMethodDataStore_save p (PaymentMethodDataStore_save p ps) = PaymentMethodDataStore_save p ps"
  by (induction ps) (simp_all add: PM_save_Nil PM_save_Cons)

lemma Cus_save_Nil: "CustomerDataStore_save c [] = [c]"
  by (simp add: CustomerDataStore_save_def)

lemma Cus_save_Cons:
  "CustomerDataStore_save c (y # ys)
   = (if cus_id y = cus_id c then c # ys else y # CustomerDataStore_save c ys)"
proof (cases "cus_id y = cus_id c")
  case True
  then show ?thesis by (simp add: CustomerDataStore_save_def)
next
  case False
  show ?thesis
  proof (cases "findIndex (\<lambda>x. cus_id x = cus_id c) ys \<ge> 0")
    case True
    then have "nat (findIndex (\<lambda>x. cus_id x = cus_id c) ys + 1)
               = Suc (nat (findIndex (\<lambda>x. cus_id x = cus_id c) ys))"
      by simp
    with True False show ?thesis
      by (simp add: CustomerDataStore_save_def Let_def)
  next
    case nf: False
    with False show ?thesis
      by (simp add: CustomerDataStore_save_def Let_def)
  qed
qed

lemma Cus_save_idem:
  "CustomerDataStore_save c (CustomerDataStore_save c cs) = CustomerDataStore_save c cs"
  by (induction cs) (simp_all add: Cus_save_Nil Cus_save_Cons)

lemma fetch_and_save_idem:
  "fetch_and_save st i c (fetch_and_save st i c pms) = fetch_and_save st i c pms"
  by (simp add: fetch_and_save_def PM_save_idem split: sum.splits)

lemma handleSetupIntentSucceeded_idem:
  "handleSetupIntentSucceeded st x (handleSetupIntentSucceeded st x m)
   = handleSetupIntentSucceeded st x m"
  by (simp add: handleSetupIntentSucceeded_def fetch_and_save_idem split: option.splits)

lemma handlePaymentIntentSucceeded_idem:
  "handlePaymentIntentSucceeded st x (handlePaymentIntentSucceeded st x m)
   = handlePaymentIntentSucceeded st x m"
  by (simp add: handlePaymentIntentSucceeded_def fetch_and_save_idem split: option.splits)

lemma handlePaymentMethodAttached_idem:
  "handlePaymentMethodAttached st x (handlePaymentMethodAttached st x m)
   = handlePaymentMethodAttached st x m"
  by (simp add: handlePaymentMethodAttached_def PM_save_idem split: option.splits)

lemma handleCustomerCreated_idem:
  "handleCustomerCreated x (handleCustomerCreated x m) = handleCustomerCreated x m"
  by (simp add: handleCustomerCreated_def Cus_save_idem)

lemma handleCustomerDeleted_idem:
  "handleCustomerDeleted x (handleCustomerDeleted x m) = handleCustomerDeleted x m"
proof -
  let ?m = "handleCustomerDeleted x m"
  have none: "{y \<in> set (PAYMENT_METHODS_FILE ?m). customerId y = sc_id x} = {}"
    using handleCustomerDeleted_none_left [of _ x m] by blast
  have p: "PAYMENT_METHODS_FILE (handleCustomerDeleted x ?m) = PAYMENT_METHODS_FILE ?m"
    unfolding handleCustomerDeleted_payment_methods [of x ?m] none by simp
  have c: "CUSTOMERS_FILE (handleCustomerDeleted x ?m) = CUSTOMERS_FILE ?m"
    by (simp add: handleCustomerDeleted_customers)
  have r: "mirror.more (handleCustomerDeleted x ?m) = mirror.more ?m" by simp
  from c p r show ?thesis by (rule mirror.equality)
qed

lemma sample_attached_event:
  "webhook_POST stripe_sample ''attached'' (Some ''t=1,v1=valid'') m
   = (\<lparr>wh_status = 200, wh_error = None, wh_received = True\<rparr>,
      m\<lparr>PAYMENT_METHODS_FILE :=
          PaymentMethodDataStore_save (sample_saved ''pm_B2'' ''cus_B'' False)
            (PAYMENT_METHODS_FILE m)\<rparr>)"
  by (simp add: webhook_POST_def present_def truthy_def stripe_sample_def sample_event_def
        handlePaymentMethodAttached_def sample_payment_method_def savedPaymentMethod_of_def
        sample_saved_def or_str_def or_num_def)

lemma sample_set_default:
  "payment_methods_PATCH stripe_sample
     \<lparr>u_paymentMethodId = Some pmid, u_customerId = Some cid, u_action = Some ''set_default''\<rparr> m
   = (if pmid = [] \<or> cid = []
      then (fail 400 ''Payment method ID and customer ID are required'', m)
      else (ok (Message ''Payment method set as default''),
            m\<lparr>PAYMENT_METHODS_FILE :=
                PaymentMethodDataStore_setAsDefault pmid cid (PAYMENT_METHODS_FILE m)\<rparr>))"
  by (simp add: payment_methods_PATCH_def present_def truthy_def stripe_sample_def)

text \<open>
  Claim C2, as stated, fails: the handler keeps no record of the ids of the events it
  has seen, and a redelivery is applied again. The event \<open>evt_1\<close> (a payment method
  attached) is delivered, the payment method is then made the default, and \<open>evt_1\<close> is
  delivered again: the second delivery saves the record anew with \<open>isDefault = false\<close>
  and the mirror changes.
\<close>

theorem webhook_redelivery_counterexample:
  "PAYMENT_METHODS_FILE
     (snd (payment_methods_PATCH stripe_sample
        \<lparr>u_paymentMethodId = Some ''pm_B2'', u_customerId = Some ''cus_B'',
         u_action = Some ''set_default''\<rparr>
        (snd (webhook_POST stripe_sample ''attached'' (Some ''t=1,v1=valid'') mirror_sample))))
   = [sample_saved ''pm_A1'' ''cus_A'' True, sample_saved ''pm_B1'' ''cus_B'' False,
      sample_saved ''pm_B2'' ''cus_B'' True]
   \<and> PAYMENT_METHODS_FILE
     (snd (webhook_POST stripe_sample ''attached'' (Some ''t=1,v1=valid'')
        (snd (payment_methods_PATCH stripe_sample
           \<lparr>u_paymentMethodId = Some ''pm_B2'', u_customerId = Some ''cus_B'',
            u_action = Some ''set_default''\<rparr>
           (snd (webhook_POST stripe_sample ''attached'' (Some ''t=1,v1=valid'') mirror_sample))))))
   = [sample_saved ''pm_A1'' ''cus_A'' True, sample_saved ''pm_B1'' ''cus_B'' False,
      sample_saved ''pm_B2'' ''cus_B'' False]
   \<and> snd (webhook_POST stripe_sample ''attached'' (Some ''t=1,v1=valid'')
        (snd (payment_methods_PATCH stripe_sample
           \<lparr>u_paymentMethodId = Some ''pm_B2'', u_customerId = Some ''cus_B'',
            u_action = Some ''set_default''\<rparr>
           (snd (webhook_POST stripe_sample ''attached'' (Some ''t=1,v1=valid'') mirror_sample)))))
     \<noteq> snd (payment_methods_PATCH stripe_sample
           \<lparr>u_paymentMethodId = Some ''pm_B2'', u_customerId = Some ''cus_B'',
            u_action = Some ''set_default''\<rparr>
           (snd (webhook_POST stripe_sample ''attached'' (Some ''t=1,v1=valid'') mirror_sample)))"
  by (simp add: sample_attached_event sample_set_default mirror_sample_def
        PaymentMethodDataStore_save_def PaymentMethodDataStore_setAsDefault_def
        sample_saved_def Let_def)

text \<open>
  Claim C2, amended. Delivering the same event twice in immediate succession, with the
  same answers of the provider, leaves the mirror as one delivery leaves it: every
  handler is idempotent on the mirror. A redelivery after another change to the same
  record is applied again and overwrites that change.
\<close>

theorem webhook_twice_same_as_once:
  "snd (webhook_POST st body sg (snd (webhook_POST st body sg m)))
   = snd (webhook_POST st body sg m)"
proof (cases "present sg")
  case None
  then show ?thesis by (simp add: webhook_POST_def)
next
  case (Some s)
  show ?thesis
  proof (cases "webhooks_constructEvent st body s (STRIPE_WEBHOOK_SECRET st)")
    case (Inl e)
    with Some show ?thesis by (simp add: webhook_POST_def)
  next
    case (Inr ev)
    show ?thesis
    proof (cases "ev_payload ev")
      case (SetupIntentSucceeded x)
      with Some Inr show ?thesis
        by (simp add: webhook_POST_def handleSetupIntentSucceeded_idem)
    next
      case (PaymentIntentSucceeded x)
      with Some Inr show ?thesis
        by (simp add: webhook_POST_def handlePaymentIntentSucceeded_idem)
    next
      case (PaymentIntentPaymentFailed x)
      with Some Inr show ?thesis
        by (simp add: webhook_POST_def handlePaymentIntentFailed_def)
    next
      case (PaymentMethodAttached x)
      with Some Inr show ?thesis
        by (simp add: webhook_POST_def handlePaymentMethodAttached_idem)
    next
      case (CustomerCreated x)
      with Some Inr show ?thesis
        by (simp add: webhook_POST_def handleCustomerCreated_idem)
    next
      case (CustomerDeleted x)
      with Some Inr show ?thesis
        by (simp add: webhook_POST_def handleCustomerDeleted_idem)
    next
      case (OtherEvent x)
      with Some Inr show ?thesis
        by (simp add: webhook_POST_def)
    qed
  qed
qed

section \<open>At most one default payment method per customer\<close>

text \<open>
  When every stored record with the target id belongs to the customer given,
  \<open>setAsDefault\<close> leaves at most one default per customer; a save of a record that is
  not a default of the customer, and a deletion, add no default.
\<close>

lemma filter_update_outside:
  "n < length xs \<Longrightarrow> \<not> P (xs ! n) \<Longrightarrow> \<not> P x \<Longrightarrow> filter P (xs[n := x]) = filter P xs"
proof (induction xs arbitrary: n)
  case Nil
  then show ?case by simp
next
  case (Cons y ys)
  then show ?case by (cases n) simp_all
qed

lemma filter_update_length:
  "length (filter P (xs[n := x])) \<le> Suc (length (filter P xs))"
proof (induction xs arbitrary: n)
  case Nil
  then show ?case by simp
next
  case (Cons y ys)
  show ?case
  proof (cases n)
    case 0
    then show ?thesis by simp
  next
    case (Suc k)
    with Cons.IH [of k] show ?thesis by simp
  qed
qed

lemma defaults_of_cleared:
  "defaults_of k (map (\<lambda>pm. if customerId pm = c then pm\<lparr>isDefault := Some False\<rparr> else pm) pms)
   = (if k = c then [] else defaults_of k pms)"
  by (induction pms) (auto simp: defaults_of_def)

lemma setAsDefault_keeps_one_default:
  assumes inv: "\<forall>k. length (defaults_of k pms) \<le> 1"
    and own: "\<forall>pm \<in> set pms. pm_id pm = i \<longrightarrow> customerId pm = c"
  shows "length (defaults_of k (PaymentMethodDataStore_setAsDefault i c pms)) \<le> 1"
proof -
  let ?g = "\<lambda>pm. if customerId pm = c then pm\<lparr>isDefault := Some False\<rparr> else pm"
  let ?cl = "map ?g pms"
  let ?P = "\<lambda>pm. customerId pm = k \<and> isDefault pm = Some True"
  have cl: "length (defaults_of k ?cl) \<le> 1"
    using inv by (simp add: defaults_of_cleared)
  show ?thesis
  proof (cases "findIndex (\<lambda>pm. pm_id pm = i) ?cl \<ge> 0")
    case False
    with cl show ?thesis by (simp add: PaymentMethodDataStore_setAsDefault_def Let_def)
  next
    case True
    let ?n = "nat (findIndex (\<lambda>pm. pm_id pm = i) ?cl)"
    let ?x = "(?cl ! ?n)\<lparr>isDefault := Some True\<rparr>"
    have n: "?n < length pms"
      using findIndex_lt_length [of "\<lambda>pm. pm_id pm = i" ?cl] True by simp
    have "pm_id (?cl ! ?n) = i" using findIndex_sat [OF True] .
    with n have "pm_id (pms ! ?n) = i" by (simp split: if_splits)
    with own n have "customerId (pms ! ?n) = c" by simp
    with n have cn: "customerId (?cl ! ?n) = c" by simp
    have res: "PaymentMethodDataStore_setAsDefault i c pms = ?cl[?n := ?x]"
      using True by (simp add: PaymentMethodDataStore_setAsDefault_def Let_def)
    show ?thesis
    proof (cases "k = c")
      case True
      have "defaults_of c ?cl = []" by (simp add: defaults_of_cleared)
      then have "length (filter (\<lambda>pm. customerId pm = c \<and> isDefault pm = Some True) ?cl) = 0"
        by (simp add: defaults_of_def)
      with filter_update_length [of "\<lambda>pm. customerId pm = c \<and> isDefault pm = Some True" ?cl ?n ?x]
      have "length (filter (\<lambda>pm. customerId pm = c \<and> isDefault pm = Some True) (?cl[?n := ?x])) \<le> 1"
        by simp
      with True res show ?thesis by (simp add: defaults_of_def)
    next
      case False
      have "filter ?P (?cl[?n := ?x]) = filter ?P ?cl"
      proof (rule filter_update_outside)
        show "?n < length ?cl" using n by simp
        show "\<not> ?P (?cl ! ?n)" using cn False by simp
        show "\<not> ?P ?x" using cn False by simp
      qed
      with cl res show ?thesis by (simp add: defaults_of_def)
    qed
  qed
qed

lemma save_keeps_defaults:
  assumes "customerId p \<noteq> k \<or> isDefault p \<noteq> Some True"
  shows "length (defaults_of k (PaymentMethodDataStore_save p pms)) \<le> length (defaults_of k pms)"
  using assms by (induction pms) (auto simp: PM_save_Nil PM_save_Cons defaults_of_def)

lemma delete_keeps_defaults:
  "length (defaults_of k (snd (PaymentMethodDataStore_delete i pms))) \<le> length (defaults_of k pms)"
proof -
  have "defaults_of k (snd (PaymentMethodDataStore_delete i pms))
        = filter (\<lambda>pm. pm_id pm \<noteq> i) (defaults_of k pms)"
    by (simp add: PM_delete_state defaults_of_def conj_commute)
  then show ?thesis by simp
qed

text \<open>
  Claim C1 fails in the case it names last. In the sample mirror the payment method
  \<open>pm_B2\<close> belongs to customer \<open>cus_B\<close>, whose default is \<open>pm_B1\<close>. The request to
  make \<open>pm_B2\<close> the default of customer \<open>cus_A\<close> succeeds; it clears the default of
  \<open>cus_A\<close> and sets the flag of \<open>pm_B2\<close>, and \<open>cus_B\<close> has two defaults.
\<close>

theorem set_default_other_customer_two_defaults:
  "defaults_of ''cus_B'' (PAYMENT_METHODS_FILE mirror_sample)
     = [sample_saved ''pm_B1'' ''cus_B'' True]
   \<and> defaults_of ''cus_A'' (PAYMENT_METHODS_FILE mirror_sample)
     = [sample_saved ''pm_A1'' ''cus_A'' True]
   \<and> payment_methods_PATCH stripe_sample
        \<lparr>u_paymentMethodId = Some ''pm_B2'', u_customerId = Some ''cus_A'',
         u_action = Some ''set_default''\<rparr> mirror_sample
     = (\<lparr>status = 200, success = True, data = Some (Message ''Payment method set as default''),
         error = None\<rparr>,
        mirror_sample\<lparr>PAYMENT_METHODS_FILE :=
          [sample_saved ''pm_A1'' ''cus_A'' False, sample_saved ''pm_B1'' ''cus_B'' True,
           sample_saved ''pm_B2'' ''cus_B'' True]\<rparr>)
   \<and> defaults_of ''cus_B''
        [sample_saved ''pm_A1'' ''cus_A'' False, sample_saved ''pm_B1'' ''cus_B'' True,
         sample_saved ''pm_B2'' ''cus_B'' True]
     = [sample_saved ''pm_B1'' ''cus_B'' True, sample_saved ''pm_B2'' ''cus_B'' True]"
  by (simp add: sample_set_default mirror_sample_def defaults_of_def ok_def
        PaymentMethodDataStore_setAsDefault_def sample_saved_def Let_def)

end
